theory Spec2Isabelle
  imports Complex_Main
begin

section \<open>Petgas Portal: the backend as the handlers see it\<close>

text \<open>
  The portal's logic lives in event handlers of its pages. Each handler reads the state of
  its page (React state), sends requests to the backend (a Postgres database behind a REST
  interface, and an object storage bucket) and writes the page state back. The embedding
  makes the three parts explicit:
  \<^item> the backend is a record \<open>world\<close> of the tables of \<^verbatim>\<open>supabase_schema.sql\<close>, the bucket
    \<^verbatim>\<open>mitigation-images\<close>, and the log of the requests received so far;
  \<^item> what a handler cannot control is a record \<open>env\<close>: whether the \<open>n\<close>-th request fails for
    a reason outside the database (network, permissions), the uuid the database generates,
    the clock;
  \<^item> a handler is a function from \<open>env\<close>, \<open>world\<close> and page state to the new page state and
    the new \<open>world\<close>. A \<^verbatim>\<open>throw\<close> inside \<^verbatim>\<open>try\<close> is the branch that ends in the \<^verbatim>\<open>catch\<close> block.

  The columns \<^verbatim>\<open>pgc_balance\<close> and \<^verbatim>\<open>pgc_amount\<close> are \<^verbatim>\<open>NUMERIC\<close> and the program computes on
  them in doubles. The model takes whole amounts, as \<open>int\<close>: on whole numbers below \<open>2 ^ 53\<close>
  the \<^verbatim>\<open>+\<close>, \<^verbatim>\<open>-\<close> and \<^verbatim>\<open>Math.max\<close> of the doubles are those of the integers. Nothing below
  is about amounts with a fraction. A nullable column is an \<open>option\<close>. Identifiers and
  other strings are lists of bytes (UTF-8), timestamps are natural numbers.
  The flags that only drive spinners (\<^verbatim>\<open>loading\<close>, \<^verbatim>\<open>formLoading\<close>, ...) are left out.
\<close>

type_synonym uuid = string
type_synonym timestamp = nat

subsection \<open>Errors of the backend\<close>

text \<open>
  The error object of a failed request: \<^verbatim>\<open>{ code, message }\<close>. The codes are the SQLSTATE
  of Postgres for a violated constraint and \<^verbatim>\<open>PGRST116\<close> when \<^verbatim>\<open>.single()\<close> finds no row.
\<close>

record pg_error =
  code :: string
  message :: string

definition foreign_key_violation :: pg_error where
  "foreign_key_violation = \<lparr>code = ''23503'', message = ''violates foreign key constraint''\<rparr>"

definition unique_violation :: pg_error where
  "unique_violation = \<lparr>code = ''23505'', message = ''duplicate key value violates unique constraint''\<rparr>"

definition not_null_violation :: pg_error where
  "not_null_violation = \<lparr>code = ''23502'', message = ''violates not-null constraint''\<rparr>"

definition check_violation :: pg_error where
  "check_violation = \<lparr>code = ''23514'', message = ''violates check constraint''\<rparr>"

definition no_rows :: pg_error where
  "no_rows = \<lparr>code = ''PGRST116'', message = ''JSON object requested, multiple (or no) rows returned''\<rparr>"

subsection \<open>JavaScript values\<close>

text \<open>\<^verbatim>\<open>s || d\<close> on a string: the empty string is falsy.\<close>

definition or_else :: "string \<Rightarrow> string \<Rightarrow> string" where
  "or_else s d = (if s = [] then d else s)"

text \<open>\<^verbatim>\<open>s || d\<close> on a nullable string: \<^verbatim>\<open>null\<close> and the empty string are falsy.\<close>

definition opt_or_else :: "string option \<Rightarrow> string \<Rightarrow> string" where
  "opt_or_else s d = (case s of None \<Rightarrow> d | Some t \<Rightarrow> or_else t d)"

text \<open>\<^verbatim>\<open>s || null\<close>.\<close>

definition or_null :: "string \<Rightarrow> string option" where
  "or_null s = (if s = [] then None else Some s)"

text \<open>\<^verbatim>\<open>s || null\<close> on a string that may be missing.\<close>

definition opt_or_null :: "string option \<Rightarrow> string option" where
  "opt_or_null s = (case s of None \<Rightarrow> None | Some t \<Rightarrow> or_null t)"

text \<open>\<^verbatim>\<open>n || 0\<close> on a nullable number.\<close>

definition or_zero :: "int option \<Rightarrow> int" where
  "or_zero n = (case n of None \<Rightarrow> 0 | Some b \<Rightarrow> b)"

text \<open>A number inside a template literal: its decimal digits.\<close>

fun string_of_nat :: "nat \<Rightarrow> string" where
  "string_of_nat n =
     (if n < 10 then [''0123456789'' ! n]
      else string_of_nat (n div 10) @ [''0123456789'' ! (n mod 10)])"

declare string_of_nat.simps [simp del]

definition string_of_int :: "int \<Rightarrow> string" where
  "string_of_int i = (if i < 0 then ''-'' @ string_of_nat (nat (- i)) else string_of_nat (nat i))"

subsection \<open>Tables\<close>

text \<open>Table \<^verbatim>\<open>clients\<close>; the TypeScript side calls a row a \<^verbatim>\<open>ClientProfile\<close>.\<close>

record client =
  c_id :: uuid
  c_email :: string
  c_full_name :: "string option"
  c_solana_wallet :: "string option"
  c_bnb_wallet :: "string option"
  c_pgc_balance :: "int option"
  c_created_at :: timestamp
  c_updated_at :: timestamp

text \<open>Table \<^verbatim>\<open>rewards\<close> (a \<^verbatim>\<open>RewardDefinition\<close>); the two criteria columns are never read.\<close>

record reward =
  r_id :: uuid
  r_name :: string
  r_description :: "string option"
  r_pgc_amount :: int
  r_created_at :: timestamp

text \<open>Table \<^verbatim>\<open>client_rewards\<close>: the reward ledger.\<close>

record client_reward =
  cr_id :: uuid
  cr_client_id :: uuid
  cr_reward_id :: uuid
  cr_awarded_at :: timestamp
  cr_notes :: "string option"

text \<open>Table \<^verbatim>\<open>plastic_mitigation_entries\<close>.\<close>

record mitigation_entry =
  m_id :: uuid
  m_client_id :: uuid
  m_mitigated_plastic_kg :: rat
  m_created_at :: timestamp

text \<open>Table \<^verbatim>\<open>mitigation_activity_images\<close>.\<close>

record mitigation_image =
  i_id :: uuid
  i_entry_id :: uuid
  i_image_url :: string
  i_uploaded_at :: timestamp

text \<open>A browser \<^verbatim>\<open>File\<close>: its name and its bytes.\<close>

record js_file =
  f_name :: string
  f_bytes :: string

subsection \<open>Numbers read from a text field\<close>

text \<open>
  The value of \<^verbatim>\<open>parseFloat\<close>. \<open>Num q\<close> stands for the double nearest to \<open>q\<close>; the rounding
  inside the range of the doubles is not modelled, the rounding to zero and to infinity at
  its two ends is (\<open>round_double\<close>), so that the sign of a parsed number is the sign the
  program sees.
\<close>

datatype jsnum = NaN | Num rat | PosInf | NegInf

text \<open>\<^verbatim>\<open>x <= 0\<close>: false for \<^verbatim>\<open>NaN\<close>.\<close>

fun le_zero :: "jsnum \<Rightarrow> bool" where
  "le_zero NaN = False"
| "le_zero (Num q) = (q \<le> 0)"
| "le_zero PosInf = False"
| "le_zero NegInf = True"

definition round_double :: "rat \<Rightarrow> jsnum" where
  "round_double q =
     (if \<bar>q\<bar> * 2 ^ 1075 \<le> 1 then Num 0
      else if 2 ^ 1024 - 2 ^ 970 \<le> \<bar>q\<bar> then (if 0 < q then PosInf else NegInf)
      else Num q)"

text \<open>
  The white space and line terminators of JavaScript, in UTF-8: the six of ASCII, U+00A0,
  U+1680, U+2000 to U+200A, U+2028, U+2029, U+202F, U+205F, U+3000 and U+FEFF.
\<close>

definition white_space :: "string list" where
  "white_space =
     [[CHR 0x09], [CHR 0x0A], [CHR 0x0B], [CHR 0x0C], [CHR 0x0D], [CHR 0x20],
      [CHR 0xC2, CHR 0xA0],
      [CHR 0xE1, CHR 0x9A, CHR 0x80],
      [CHR 0xE2, CHR 0x80, CHR 0x80], [CHR 0xE2, CHR 0x80, CHR 0x81],
      [CHR 0xE2, CHR 0x80, CHR 0x82], [CHR 0xE2, CHR 0x80, CHR 0x83],
      [CHR 0xE2, CHR 0x80, CHR 0x84], [CHR 0xE2, CHR 0x80, CHR 0x85],
      [CHR 0xE2, CHR 0x80, CHR 0x86], [CHR 0xE2, CHR 0x80, CHR 0x87],
      [CHR 0xE2, CHR 0x80, CHR 0x88], [CHR 0xE2, CHR 0x80, CHR 0x89],
      [CHR 0xE2, CHR 0x80, CHR 0x8A],
      [CHR 0xE2, CHR 0x80, CHR 0xA8], [CHR 0xE2, CHR 0x80, CHR 0xA9],
      [CHR 0xE2, CHR 0x80, CHR 0xAF],
      [CHR 0xE2, CHR 0x81, CHR 0x9F],
      [CHR 0xE3, CHR 0x80, CHR 0x80],
      [CHR 0xEF, CHR 0xBB, CHR 0xBF]]"

fun skip_white_space :: "string \<Rightarrow> string" where
  "skip_white_space [] = []"
| "skip_white_space (c # r) =
     (if [c] \<in> set white_space then skip_white_space r
      else if take 2 (c # r) \<in> set white_space then skip_white_space (drop 1 r)
      else if take 3 (c # r) \<in> set white_space then skip_white_space (drop 2 r)
      else c # r)"

definition is_digit :: "char \<Rightarrow> bool" where
  "is_digit c = (c \<in> set ''0123456789'')"

definition digits_value :: "string \<Rightarrow> nat" where
  "digits_value ds = foldl (\<lambda>a c. 10 * a + (of_char c - 48)) 0 ds"

text \<open>The exponent part \<^verbatim>\<open>e\<close>, optional sign, at least one digit; 0 when there is none.\<close>

definition exponent :: "string \<Rightarrow> int" where
  "exponent s =
     (case s of
        [] \<Rightarrow> 0
      | c # r \<Rightarrow>
          if c = CHR ''e'' \<or> c = CHR ''E'' then
            (case r of
               [] \<Rightarrow> 0
             | d # r' \<Rightarrow>
                 if d = CHR ''-'' then
                   (if takeWhile is_digit r' = [] then 0
                    else - int (digits_value (takeWhile is_digit r')))
                 else if d = CHR ''+'' then int (digits_value (takeWhile is_digit r'))
                 else int (digits_value (takeWhile is_digit r)))
          else 0)"

definition scale10 :: "rat \<Rightarrow> int \<Rightarrow> rat" where
  "scale10 q ex = (if 0 \<le> ex then q * 10 ^ nat ex else q / 10 ^ nat (- ex))"

text \<open>
  The digits, fraction and exponent of an unsigned literal. No digit before and none after
  the point: not a number.
\<close>

definition unsigned_literal :: "string \<Rightarrow> rat option" where
  "unsigned_literal s =
     (let ip = takeWhile is_digit s;
          r1 = dropWhile is_digit s;
          fp = (case r1 of [] \<Rightarrow> [] | c # r \<Rightarrow> if c = CHR ''.'' then takeWhile is_digit r else []);
          r2 = (case r1 of [] \<Rightarrow> [] | c # r \<Rightarrow> if c = CHR ''.'' then dropWhile is_digit r else r1)
      in if ip = [] \<and> fp = [] then None
         else Some (scale10 (of_nat (digits_value ip) + of_nat (digits_value fp) / 10 ^ length fp)
                      (exponent r2)))"

text \<open>
  \<^verbatim>\<open>parseFloat\<close>: leading white space is skipped, the longest prefix that is a decimal
  literal is read, and a string with no such prefix gives \<^verbatim>\<open>NaN\<close>.
\<close>

definition parseFloat :: "string \<Rightarrow> jsnum" where
  "parseFloat s =
     (let t = skip_white_space s;
          neg = (case t of [] \<Rightarrow> False | c # r \<Rightarrow> c = CHR ''-'');
          u = (case t of [] \<Rightarrow> [] | c # r \<Rightarrow> if c = CHR ''-'' \<or> c = CHR ''+'' then r else t)
      in if take 8 u = ''Infinity'' then (if neg then NegInf else PosInf)
         else (case unsigned_literal u of
                 None \<Rightarrow> NaN
               | Some q \<Rightarrow> round_double (if neg then - q else q)))"

subsection \<open>The backend\<close>

text \<open>The requests the handlers send, with the values that matter below.\<close>

datatype request =
    Select string
  | InsertClient uuid string "string option"
  | UpsertClient uuid string string string string
  | InsertClientReward uuid uuid "string option"
  | UpdatePgcBalance uuid int
  | DeleteClientReward uuid
  | DeleteReward uuid
  | Upload string js_file
  | Remove "string list"
  | InsertMitigationEntry uuid jsnum
  | InsertMitigationImages "(uuid \<times> string) list"

record world =
  clients :: "client list"
  rewards :: "reward list"
  client_rewards :: "client_reward list"
  plastic_mitigation_entries :: "mitigation_entry list"
  mitigation_activity_images :: "mitigation_image list"
  mitigation_images :: "(string \<times> js_file) list"
  requests :: "request list"

text \<open>
  What the handlers do not decide. Requests are numbered from 0 in the order the backend
  receives them: \<open>fault e n\<close> is the error of request \<open>n\<close> when it fails before reaching the
  tables, \<open>uuid_generate e n k\<close> the \<^verbatim>\<open>uuid_generate_v4()\<close> of the \<open>k\<close>-th row request \<open>n\<close>
  inserts, \<open>now e n\<close> the clock (\<^verbatim>\<open>now()\<close>, \<^verbatim>\<open>Date.now()\<close>) at request \<open>n\<close>. \<open>public_url e\<close>
  is \<^verbatim>\<open>getPublicUrl\<close> of the storage client, a function of the configured project URL.
\<close>

record env =
  fault :: "nat \<Rightarrow> pg_error option"
  uuid_generate :: "nat \<Rightarrow> nat \<Rightarrow> uuid"
  now :: "nat \<Rightarrow> timestamp"
  public_url :: "string \<Rightarrow> string"

definition receive :: "request \<Rightarrow> world \<Rightarrow> world" where
  "receive r w = w\<lparr>requests := requests w @ [r]\<rparr>"

text \<open>\<^verbatim>\<open>.from(table).select(...)\<close>: the caller reads the rows off the world when there is no error.\<close>

definition select_from :: "env \<Rightarrow> world \<Rightarrow> string \<Rightarrow> pg_error option \<times> world" where
  "select_from e w table = (fault e (length (requests w)), receive (Select table) w)"

text \<open>
  \<^verbatim>\<open>.from('client_rewards').insert({client_id, reward_id, notes, awarded_at})\<close>. Both
  references must exist and the generated key must be new.
\<close>

definition insert_client_reward ::
  "env \<Rightarrow> world \<Rightarrow> uuid \<Rightarrow> uuid \<Rightarrow> string option \<Rightarrow> timestamp \<Rightarrow> pg_error option \<times> world" where
  "insert_client_reward e w cid rid notes awarded =
     (let n = length (requests w); w1 = receive (InsertClientReward cid rid notes) w in
      case fault e n of
        Some err \<Rightarrow> (Some err, w1)
      | None \<Rightarrow>
          if cid \<in> set (map c_id (clients w)) \<and> rid \<in> set (map r_id (rewards w)) then
            (if uuid_generate e n 0 \<in> set (map cr_id (client_rewards w)) then (Some unique_violation, w1)
             else (None, w1\<lparr>client_rewards := client_rewards w @
                     [\<lparr>cr_id = uuid_generate e n 0, cr_client_id = cid, cr_reward_id = rid,
                       cr_awarded_at = awarded, cr_notes = notes\<rparr>]\<rparr>))
          else (Some foreign_key_violation, w1))"

text \<open>
  \<^verbatim>\<open>.from('clients').update({pgc_balance, updated_at}).eq('id', id)\<close>. Every row with the id
  is updated (none is no error); the trigger \<^verbatim>\<open>set_clients_updated_at\<close> stamps the row.
\<close>

definition set_pgc_balance :: "uuid \<Rightarrow> int \<Rightarrow> timestamp \<Rightarrow> client \<Rightarrow> client" where
  "set_pgc_balance cid b t c =
     (if c_id c = cid then c\<lparr>c_pgc_balance := Some b, c_updated_at := t\<rparr> else c)"

definition update_pgc_balance :: "env \<Rightarrow> world \<Rightarrow> uuid \<Rightarrow> int \<Rightarrow> pg_error option \<times> world" where
  "update_pgc_balance e w cid b =
     (let n = length (requests w); w1 = receive (UpdatePgcBalance cid b) w in
      case fault e n of
        Some err \<Rightarrow> (Some err, w1)
      | None \<Rightarrow> (None, w1\<lparr>clients := map (set_pgc_balance cid b (now e n)) (clients w)\<rparr>))"

text \<open>
  The same update followed by \<^verbatim>\<open>.select().single()\<close>: the updated row comes back, and
  anything but exactly one row is the error \<^verbatim>\<open>PGRST116\<close> with the update undone.
\<close>

definition update_pgc_balance_single ::
  "env \<Rightarrow> world \<Rightarrow> uuid \<Rightarrow> int \<Rightarrow> (pg_error + client) \<times> world" where
  "update_pgc_balance_single e w cid b =
     (let n = length (requests w); w1 = receive (UpdatePgcBalance cid b) w in
      case fault e n of
        Some err \<Rightarrow> (Inl err, w1)
      | None \<Rightarrow>
          (case filter (\<lambda>c. c_id c = cid) (clients w) of
             [c] \<Rightarrow> (Inr (set_pgc_balance cid b (now e n) c),
                     w1\<lparr>clients := map (set_pgc_balance cid b (now e n)) (clients w)\<rparr>)
           | _ \<Rightarrow> (Inl no_rows, w1)))"

text \<open>\<^verbatim>\<open>.from('client_rewards').delete().eq('id', id)\<close>: deleting no row is no error.\<close>

definition delete_client_reward :: "env \<Rightarrow> world \<Rightarrow> uuid \<Rightarrow> pg_error option \<times> world" where
  "delete_client_reward e w crid =
     (let n = length (requests w); w1 = receive (DeleteClientReward crid) w in
      case fault e n of
        Some err \<Rightarrow> (Some err, w1)
      | None \<Rightarrow> (None, w1\<lparr>client_rewards := filter (\<lambda>r. cr_id r \<noteq> crid) (client_rewards w)\<rparr>))"

text \<open>
  \<^verbatim>\<open>.from('rewards').delete().eq('id', id)\<close>. The schema declares
  \<^verbatim>\<open>client_rewards.reward_id ... REFERENCES rewards(id) ON DELETE RESTRICT\<close>: the delete of a
  row that a ledger row references is refused.
\<close>

definition delete_reward :: "env \<Rightarrow> world \<Rightarrow> uuid \<Rightarrow> pg_error option \<times> world" where
  "delete_reward e w rid =
     (let n = length (requests w); w1 = receive (DeleteReward rid) w in
      case fault e n of
        Some err \<Rightarrow> (Some err, w1)
      | None \<Rightarrow>
          if rid \<in> set (map r_id (rewards w)) \<and> rid \<in> set (map cr_reward_id (client_rewards w))
          then (Some foreign_key_violation, w1)
          else (None, w1\<lparr>rewards := filter (\<lambda>r. r_id r \<noteq> rid) (rewards w)\<rparr>))"

section \<open>Admin: assigning a reward\<close>

text \<open>The page \<^verbatim>\<open>AssignRewardPage\<close>: the two option lists are filled once, when the page loads.\<close>

record client_option =
  co_value :: uuid
  co_label :: string
  co_current_pgc_balance :: int

record reward_option =
  ro_value :: uuid
  ro_label :: string
  ro_pgc_amount :: int

record assign_page =
  ap_clients :: "client_option list"
  ap_rewards :: "reward_option list"
  ap_selectedClient :: "client_option option"
  ap_selectedReward :: "reward_option option"
  ap_notes :: string
  ap_error :: "string option"
  ap_successMessage :: "string option"

definition client_option_of :: "client \<Rightarrow> client_option" where
  "client_option_of c =
     \<lparr>co_value = c_id c,
      co_label = opt_or_else (c_full_name c) ''N/A'' @ '' ('' @ c_email c @ '')'',
      co_current_pgc_balance = or_zero (c_pgc_balance c)\<rparr>"

definition reward_option_of :: "reward \<Rightarrow> reward_option" where
  "reward_option_of r =
     \<lparr>ro_value = r_id r,
      ro_label = r_name r @ '' (+'' @ string_of_int (r_pgc_amount r) @ '' PGC)'',
      ro_pgc_amount = r_pgc_amount r\<rparr>"

text \<open>\<^verbatim>\<open>fetchData\<close>, run by the effect of the page when the admin is signed in.\<close>

definition fetchData :: "env \<Rightarrow> world \<Rightarrow> assign_page \<Rightarrow> assign_page \<times> world" where
  "fetchData e w p =
     (let p0 = p\<lparr>ap_error := None\<rparr> in
      case select_from e w ''clients'' of
        (Some err, w1) \<Rightarrow>
          (p0\<lparr>ap_error := Some (or_else (''Fetching clients: '' @ message err) ''Failed to load data.'')\<rparr>, w1)
      | (None, w1) \<Rightarrow>
          (let p1 = p0\<lparr>ap_clients := map client_option_of (clients w1)\<rparr> in
           case select_from e w1 ''rewards'' of
             (Some err, w2) \<Rightarrow>
               (p1\<lparr>ap_error := Some (or_else (''Fetching rewards: '' @ message err) ''Failed to load data.'')\<rparr>, w2)
           | (None, w2) \<Rightarrow> (p1\<lparr>ap_rewards := map reward_option_of (rewards w2)\<rparr>, w2)))"

text \<open>
  \<^verbatim>\<open>handleSubmit\<close>: the ledger row is inserted first, then the balance is written as the
  balance of the selected option plus the amount of the selected reward. On a number,
  the \<^verbatim>\<open>|| 0\<close> of \<^verbatim>\<open>(selectedClient.current_pgc_balance || 0)\<close> changes nothing.
\<close>

definition handleSubmit :: "env \<Rightarrow> world \<Rightarrow> assign_page \<Rightarrow> assign_page \<times> world" where
  "handleSubmit e w p =
     (case (ap_selectedClient p, ap_selectedReward p) of
        (Some selectedClient, Some selectedReward) \<Rightarrow>
          (let p0 = p\<lparr>ap_error := None, ap_successMessage := None\<rparr> in
           case insert_client_reward e w (co_value selectedClient) (ro_value selectedReward)
                  (or_null (ap_notes p)) (now e (length (requests w))) of
             (Some clientRewardError, w1) \<Rightarrow>
               (p0\<lparr>ap_error := Some (or_else (''Assigning reward: '' @ message clientRewardError)
                                      ''An unexpected error occurred.'')\<rparr>, w1)
           | (None, w1) \<Rightarrow>
               (let newPgcBalance = co_current_pgc_balance selectedClient + ro_pgc_amount selectedReward in
                case update_pgc_balance e w1 (co_value selectedClient) newPgcBalance of
                  (Some updateBalanceError, w2) \<Rightarrow>
                    (p0\<lparr>ap_error := Some (or_else (''Updating PGC balance: '' @ message updateBalanceError
                                                  @ ''. Please manually verify client balance.'')
                                           ''An unexpected error occurred.'')\<rparr>, w2)
                | (None, w2) \<Rightarrow>
                    (p0\<lparr>ap_successMessage :=
                          Some (''Successfully awarded '' @ [CHR 0x22] @ ro_label selectedReward @ [CHR 0x22]
                                @ '' to '' @ co_label selectedClient
                                @ ''. Their PGC balance has been updated.''),
                        ap_selectedClient := None, ap_selectedReward := None, ap_notes := []\<rparr>, w2)))
      | _ \<Rightarrow> (p\<lparr>ap_error := Some ''Please select a client and a reward.''\<rparr>, w))"

section \<open>Admin: the details of a client, revoking a reward\<close>

text \<open>A row of \<^verbatim>\<open>client_rewards\<close> joined with its reward, as \<^verbatim>\<open>ObtainedReward\<close>.\<close>

record joined_reward =
  jr_id :: uuid
  jr_name :: string
  jr_description :: "string option"
  jr_pgc_amount :: int

record obtained_reward =
  or_id :: uuid
  or_awarded_at :: timestamp
  or_notes :: "string option"
  or_rewards :: joined_reward

text \<open>The page \<^verbatim>\<open>ViewClientDetailsPage\<close>; the two history lists play no part in revoking.\<close>

record view_page =
  vp_client :: "client option"
  vp_obtainedRewards :: "obtained_reward list"
  vp_error :: "string option"
  vp_showRevokeModal :: bool
  vp_clientRewardToRevoke :: "obtained_reward option"
  vp_revokeError :: "string option"

definition join_reward :: "reward list \<Rightarrow> client_reward \<Rightarrow> obtained_reward option" where
  "join_reward rs cr =
     (case find (\<lambda>r. r_id r = cr_reward_id cr) rs of
        None \<Rightarrow> None
      | Some r \<Rightarrow>
          Some \<lparr>or_id = cr_id cr, or_awarded_at = cr_awarded_at cr, or_notes = cr_notes cr,
                or_rewards = \<lparr>jr_id = r_id r, jr_name = r_name r, jr_description = r_description r,
                               jr_pgc_amount = r_pgc_amount r\<rparr>\<rparr>)"

text \<open>
  The rewards a client obtained, latest first. The foreign key on \<^verbatim>\<open>reward_id\<close> gives every
  ledger row its reward; a row without one would be dropped here.
\<close>

definition obtained_rewards_of :: "world \<Rightarrow> uuid \<Rightarrow> obtained_reward list" where
  "obtained_rewards_of w clientId =
     rev (sort_key or_awarded_at
       (List.map_filter (join_reward (rewards w))
          (filter (\<lambda>cr. cr_client_id cr = clientId) (client_rewards w))))"

text \<open>\<^verbatim>\<open>fetchAllClientData\<close>: four reads, the first failure ends it.\<close>

definition fetchAllClientData :: "env \<Rightarrow> world \<Rightarrow> uuid \<Rightarrow> view_page \<Rightarrow> view_page \<times> world" where
  "fetchAllClientData e w clientId p =
     (if clientId = [] then (p, w)
      else
        (let p0 = p\<lparr>vp_error := None\<rparr> in
         case select_from e w ''clients'' of
           (Some err, w1) \<Rightarrow>
             (p0\<lparr>vp_error := Some (or_else (''Fetching client profile: '' @ message err)
                                    ''Failed to load client details.'')\<rparr>, w1)
         | (None, w1) \<Rightarrow>
             (case filter (\<lambda>c. c_id c = clientId) (clients w1) of
                [clientData] \<Rightarrow>
                  (let p1 = p0\<lparr>vp_client := Some clientData\<rparr> in
                   case select_from e w1 ''plastic_mitigation_entries'' of
                     (Some err, w2) \<Rightarrow>
                       (p1\<lparr>vp_error := Some (or_else (''Fetching mitigation data: '' @ message err)
                                              ''Failed to load client details.'')\<rparr>, w2)
                   | (None, w2) \<Rightarrow>
                       (case select_from e w2 ''petgas_consumption_entries'' of
                          (Some err, w3) \<Rightarrow>
                            (p1\<lparr>vp_error := Some (or_else (''Fetching consumption data: '' @ message err)
                                                   ''Failed to load client details.'')\<rparr>, w3)
                        | (None, w3) \<Rightarrow>
                            (case select_from e w3 ''client_rewards'' of
                               (Some err, w4) \<Rightarrow>
                                 (p1\<lparr>vp_error := Some (or_else (''Fetching obtained rewards: '' @ message err)
                                                        ''Failed to load client details.'')\<rparr>, w4)
                             | (None, w4) \<Rightarrow>
                                 (p1\<lparr>vp_obtainedRewards := obtained_rewards_of w4 clientId\<rparr>, w4))))
              | _ \<Rightarrow>
                  (p0\<lparr>vp_error := Some (or_else (''Fetching client profile: '' @ message no_rows)
                                         ''Failed to load client details.'')\<rparr>, w1))))"

definition handleRevokeRequest :: "obtained_reward \<Rightarrow> view_page \<Rightarrow> view_page" where
  "handleRevokeRequest reward p =
     p\<lparr>vp_clientRewardToRevoke := Some reward, vp_revokeError := None, vp_showRevokeModal := True\<rparr>"

text \<open>
  \<^verbatim>\<open>confirmRevokeReward\<close>: the ledger row is deleted first, then the balance is written as
  \<^verbatim>\<open>Math.max(0, (client.pgc_balance || 0) - clientRewardToRevoke.rewards.pgc_amount)\<close>, both
  numbers taken from the state of the page.
\<close>

definition confirmRevokeReward :: "env \<Rightarrow> world \<Rightarrow> view_page \<Rightarrow> view_page \<times> world" where
  "confirmRevokeReward e w p =
     (case (vp_clientRewardToRevoke p, vp_client p) of
        (Some clientRewardToRevoke, Some client) \<Rightarrow>
          (let p0 = p\<lparr>vp_revokeError := None\<rparr> in
           case delete_client_reward e w (or_id clientRewardToRevoke) of
             (Some deleteError, w1) \<Rightarrow>
               (p0\<lparr>vp_revokeError := Some (or_else (''Deleting client_reward entry: '' @ message deleteError)
                                            ''Failed to revoke reward.'')\<rparr>, w1)
           | (None, w1) \<Rightarrow>
               (let pgcAmountToDecrement = jr_pgc_amount (or_rewards clientRewardToRevoke);
                    currentPgcBalance = or_zero (c_pgc_balance client);
                    newPgcBalance = max 0 (currentPgcBalance - pgcAmountToDecrement) in
                case update_pgc_balance_single e w1 (c_id client) newPgcBalance of
                  (Inl updateBalanceError, w2) \<Rightarrow>
                    (p0\<lparr>vp_revokeError :=
                          Some (or_else (''Updating PGC balance failed: '' @ message updateBalanceError
                                         @ ''. Manual PGC adjustment for client '' @ c_email client
                                         @ '' might be needed.'')
                                  ''Failed to revoke reward.'')\<rparr>, w2)
                | (Inr updatedClient, w2) \<Rightarrow>
                    (p0\<lparr>vp_client := Some updatedClient,
                        vp_obtainedRewards :=
                          filter (\<lambda>r. or_id r \<noteq> or_id clientRewardToRevoke) (vp_obtainedRewards p0),
                        vp_showRevokeModal := False,
                        vp_clientRewardToRevoke := None\<rparr>, w2)))
      | _ \<Rightarrow> (p, w))"

section \<open>Admin: the reward definitions\<close>

text \<open>The page \<^verbatim>\<open>ManageRewardDefinitionsPage\<close>, as far as deleting goes.\<close>

record definitions_page =
  dp_rewards :: "reward list"
  dp_error :: "string option"
  dp_showDeleteModal :: bool
  dp_rewardToDelete :: "reward option"

definition handleDeleteRequest :: "reward \<Rightarrow> definitions_page \<Rightarrow> definitions_page" where
  "handleDeleteRequest reward p = p\<lparr>dp_rewardToDelete := Some reward, dp_showDeleteModal := True\<rparr>"

text \<open>\<^verbatim>\<open>confirmDeleteReward\<close>: the error of the backend is rethrown as it is.\<close>

definition confirmDeleteReward :: "env \<Rightarrow> world \<Rightarrow> definitions_page \<Rightarrow> definitions_page \<times> world" where
  "confirmDeleteReward e w p =
     (case dp_rewardToDelete p of
        None \<Rightarrow> (p, w)
      | Some rewardToDelete \<Rightarrow>
          (case delete_reward e w (r_id rewardToDelete) of
             (Some deleteError, w1) \<Rightarrow>
               (p\<lparr>dp_error := Some (or_else (message deleteError)
                                     ''Failed to delete reward. It might be in use.'')\<rparr>, w1)
           | (None, w1) \<Rightarrow>
               (p\<lparr>dp_rewards := filter (\<lambda>r. r_id r \<noteq> r_id rewardToDelete) (dp_rewards p),
                  dp_showDeleteModal := False,
                  dp_rewardToDelete := None\<rparr>, w1)))"

section \<open>Client: the signed-in user and the profile\<close>

text \<open>
  The \<^verbatim>\<open>User\<close> of the identity provider (\<open>u_full_name\<close> is \<^verbatim>\<open>user_metadata?.full_name\<close>) and
  the state of \<^verbatim>\<open>AuthContext\<close>.
\<close>

record auth_user =
  u_id :: uuid
  u_email :: string
  u_full_name :: "string option"

record auth_context =
  ac_user :: "auth_user option"
  ac_profile :: "client option"

text \<open>\<^verbatim>\<open>.from('clients').select('*').eq('id', id).single()\<close>.\<close>

definition select_client_single :: "env \<Rightarrow> world \<Rightarrow> uuid \<Rightarrow> (pg_error + client) \<times> world" where
  "select_client_single e w cid =
     (case select_from e w ''clients'' of
        (Some err, w1) \<Rightarrow> (Inl err, w1)
      | (None, w1) \<Rightarrow>
          (case filter (\<lambda>c. c_id c = cid) (clients w1) of
             [c] \<Rightarrow> (Inr c, w1)
           | _ \<Rightarrow> (Inl no_rows, w1)))"

text \<open>
  \<^verbatim>\<open>.from('clients').insert({id, email, full_name}).select().single()\<close>: \<^verbatim>\<open>id\<close> is the primary
  key, \<^verbatim>\<open>email\<close> is unique, the balance defaults to 0.
\<close>

definition insert_client ::
  "env \<Rightarrow> world \<Rightarrow> uuid \<Rightarrow> string \<Rightarrow> string option \<Rightarrow> (pg_error + client) \<times> world" where
  "insert_client e w cid email full_name =
     (let n = length (requests w); w1 = receive (InsertClient cid email full_name) w;
          row = \<lparr>c_id = cid, c_email = email, c_full_name = full_name, c_solana_wallet = None,
                 c_bnb_wallet = None, c_pgc_balance = Some 0, c_created_at = now e n,
                 c_updated_at = now e n\<rparr> in
      case fault e n of
        Some err \<Rightarrow> (Inl err, w1)
      | None \<Rightarrow>
          if cid \<in> set (map c_id (clients w)) \<or> email \<in> set (map c_email (clients w))
          then (Inl unique_violation, w1)
          else (Inr row, w1\<lparr>clients := clients w @ [row]\<rparr>))"

text \<open>
  \<^verbatim>\<open>.from('clients').upsert({id, full_name, solana_wallet, bnb_wallet, updated_at, email},
  {onConflict: 'id'}).select().single()\<close>: a row with the id is overwritten in the columns
  sent, and when there is none the row is inserted.
\<close>

definition overwrite_profile ::
  "uuid \<Rightarrow> string \<Rightarrow> string \<Rightarrow> string \<Rightarrow> string \<Rightarrow> timestamp \<Rightarrow> client \<Rightarrow> client" where
  "overwrite_profile cid email full_name solana bnb t c =
     (if c_id c = cid
      then c\<lparr>c_email := email, c_full_name := Some full_name, c_solana_wallet := Some solana,
             c_bnb_wallet := Some bnb, c_updated_at := t\<rparr>
      else c)"

definition upsert_client ::
  "env \<Rightarrow> world \<Rightarrow> uuid \<Rightarrow> string \<Rightarrow> string \<Rightarrow> string \<Rightarrow> string \<Rightarrow> (pg_error + client) \<times> world" where
  "upsert_client e w cid email full_name solana bnb =
     (let n = length (requests w); w1 = receive (UpsertClient cid email full_name solana bnb) w;
          row = \<lparr>c_id = cid, c_email = email, c_full_name = Some full_name,
                 c_solana_wallet = Some solana, c_bnb_wallet = Some bnb, c_pgc_balance = Some 0,
                 c_created_at = now e n, c_updated_at = now e n\<rparr> in
      case fault e n of
        Some err \<Rightarrow> (Inl err, w1)
      | None \<Rightarrow>
          if email \<in> set (map c_email (filter (\<lambda>c. c_id c \<noteq> cid) (clients w)))
          then (Inl unique_violation, w1)
          else
            (case filter (\<lambda>c. c_id c = cid) (clients w) of
               [] \<Rightarrow> (Inr row, w1\<lparr>clients := clients w @ [row]\<rparr>)
             | c # _ \<Rightarrow>
                 (Inr (overwrite_profile cid email full_name solana bnb (now e n) c),
                  w1\<lparr>clients := map (overwrite_profile cid email full_name solana bnb (now e n))
                                    (clients w)\<rparr>)))"

text \<open>
  \<^verbatim>\<open>fetchAndSetProfile\<close>: the profile is read, and created when the read says there is none,
  with \<^verbatim>\<open>full_name: currentUser.user_metadata?.full_name || null\<close>. Every failure ends in
  \<^verbatim>\<open>setProfile(null)\<close>.
\<close>

definition fetchAndSetProfile ::
  "env \<Rightarrow> world \<Rightarrow> auth_user \<Rightarrow> auth_context \<Rightarrow> auth_context \<times> world" where
  "fetchAndSetProfile e w currentUser ctx =
     (case select_client_single e w (u_id currentUser) of
        (Inr clientData, w1) \<Rightarrow> (ctx\<lparr>ac_profile := Some clientData\<rparr>, w1)
      | (Inl fetchError, w1) \<Rightarrow>
          if code fetchError = ''PGRST116'' then
            (case insert_client e w1 (u_id currentUser) (u_email currentUser)
                    (opt_or_null (u_full_name currentUser)) of
               (Inr newClientData, w2) \<Rightarrow> (ctx\<lparr>ac_profile := Some newClientData\<rparr>, w2)
             | (Inl insertError, w2) \<Rightarrow> (ctx\<lparr>ac_profile := None\<rparr>, w2))
          else (ctx\<lparr>ac_profile := None\<rparr>, w1))"

definition refreshProfile :: "env \<Rightarrow> world \<Rightarrow> auth_context \<Rightarrow> auth_context \<times> world" where
  "refreshProfile e w ctx =
     (case ac_user ctx of None \<Rightarrow> (ctx, w) | Some user \<Rightarrow> fetchAndSetProfile e w user ctx)"

text \<open>The page \<^verbatim>\<open>ProfilePage\<close>.\<close>

record profile_page =
  pp_fullName :: string
  pp_solanaWallet :: string
  pp_bnbWallet :: string
  pp_message :: string
  pp_error :: string

text \<open>
  \<^verbatim>\<open>handleUpdateProfile\<close>: the id of the signed-in user and the email of the profile held by
  the context are sent along with the three fields of the form. The error of the backend
  has a \<^verbatim>\<open>message\<close> and no \<^verbatim>\<open>error_description\<close>.
\<close>

definition handleUpdateProfile ::
  "env \<Rightarrow> world \<Rightarrow> auth_context \<Rightarrow> profile_page \<Rightarrow> (auth_context \<times> profile_page) \<times> world" where
  "handleUpdateProfile e w ctx p =
     (let p0 = p\<lparr>pp_message := [], pp_error := []\<rparr> in
      case (ac_user ctx, ac_profile ctx) of
        (Some user, Some profile) \<Rightarrow>
          (case upsert_client e w (u_id user) (c_email profile) (pp_fullName p) (pp_solanaWallet p)
                  (pp_bnbWallet p) of
             (Inl updateError, w1) \<Rightarrow>
               ((ctx, p0\<lparr>pp_error := or_else (message updateError) ''Failed to update profile.''\<rparr>), w1)
           | (Inr updated, w1) \<Rightarrow>
               (case refreshProfile e w1 ctx of
                  (ctx', w2) \<Rightarrow> ((ctx', p0\<lparr>pp_message := ''Profile updated successfully!''\<rparr>), w2)))
      | _ \<Rightarrow> ((ctx, p0\<lparr>pp_error := ''You must be logged in to update your profile.''\<rparr>), w))"

section \<open>Client: submitting a plastic mitigation\<close>

text \<open>The bucket \<^verbatim>\<open>mitigation-images\<close>. \<^verbatim>\<open>upload\<close> with \<^verbatim>\<open>upsert: false\<close> refuses a path in use.\<close>

definition already_exists :: pg_error where
  "already_exists = \<lparr>code = ''409'', message = ''The resource already exists''\<rparr>"

definition upload :: "env \<Rightarrow> world \<Rightarrow> string \<Rightarrow> js_file \<Rightarrow> (pg_error + string) \<times> world" where
  "upload e w path f =
     (let n = length (requests w); w1 = receive (Upload path f) w in
      case fault e n of
        Some err \<Rightarrow> (Inl err, w1)
      | None \<Rightarrow>
          if path \<in> set (map fst (mitigation_images w)) then (Inl already_exists, w1)
          else (Inr path, w1\<lparr>mitigation_images := mitigation_images w @ [(path, f)]\<rparr>))"

definition remove :: "env \<Rightarrow> world \<Rightarrow> string list \<Rightarrow> pg_error option \<times> world" where
  "remove e w paths =
     (let n = length (requests w); w1 = receive (Remove paths) w in
      case fault e n of
        Some err \<Rightarrow> (Some err, w1)
      | None \<Rightarrow>
          (None, w1\<lparr>mitigation_images := filter (\<lambda>ob. fst ob \<notin> set paths) (mitigation_images w)\<rparr>))"

text \<open>
  \<^verbatim>\<open>.from('plastic_mitigation_entries').insert({client_id, mitigated_plastic_kg}).select().single()\<close>.
  In the JSON body \<^verbatim>\<open>NaN\<close> and the infinities are \<^verbatim>\<open>null\<close>, which the column refuses
  (\<^verbatim>\<open>NOT NULL\<close>); a number must pass \<^verbatim>\<open>CHECK (mitigated_plastic_kg > 0)\<close>.
\<close>

definition insert_mitigation_entry ::
  "env \<Rightarrow> world \<Rightarrow> uuid \<Rightarrow> jsnum \<Rightarrow> (pg_error + mitigation_entry) \<times> world" where
  "insert_mitigation_entry e w cid kg =
     (let n = length (requests w); w1 = receive (InsertMitigationEntry cid kg) w in
      case fault e n of
        Some err \<Rightarrow> (Inl err, w1)
      | None \<Rightarrow>
          (case kg of
             Num q \<Rightarrow>
               if 0 < q then
                 (if uuid_generate e n 0 \<in> set (map m_id (plastic_mitigation_entries w))
                  then (Inl unique_violation, w1)
                  else if cid \<in> set (map c_id (clients w)) then
                    (let row = \<lparr>m_id = uuid_generate e n 0, m_client_id = cid,
                                m_mitigated_plastic_kg = q, m_created_at = now e n\<rparr>
                     in (Inr row, w1\<lparr>plastic_mitigation_entries := plastic_mitigation_entries w @ [row]\<rparr>))
                  else (Inl foreign_key_violation, w1))
               else (Inl check_violation, w1)
           | _ \<Rightarrow> (Inl not_null_violation, w1)))"

text \<open>
  \<^verbatim>\<open>.from('mitigation_activity_images').insert(imageRecords)\<close>: one statement for all the rows.
\<close>

definition insert_mitigation_images ::
  "env \<Rightarrow> world \<Rightarrow> (uuid \<times> string) list \<Rightarrow> pg_error option \<times> world" where
  "insert_mitigation_images e w recs =
     (let n = length (requests w); w1 = receive (InsertMitigationImages recs) w;
          ids = map (uuid_generate e n) [0..<length recs];
          rows = map (\<lambda>(k, r). \<lparr>i_id = uuid_generate e n k, i_entry_id = fst r, i_image_url = snd r,
                                  i_uploaded_at = now e n\<rparr>) (zip [0..<length recs] recs) in
      case fault e n of
        Some err \<Rightarrow> (Some err, w1)
      | None \<Rightarrow>
          if distinct ids \<and> set ids \<inter> set (map i_id (mitigation_activity_images w)) = {} then
            (if set (map fst recs) \<subseteq> set (map m_id (plastic_mitigation_entries w))
             then (None, w1\<lparr>mitigation_activity_images := mitigation_activity_images w @ rows\<rparr>)
             else (Some foreign_key_violation, w1))
          else (Some unique_violation, w1))"

text \<open>\<^verbatim>\<open>url.split('/')\<close>, \<^verbatim>\<open>parts.indexOf(x)\<close> (-1 when absent), \<^verbatim>\<open>parts.slice(k).join('/')\<close>.\<close>

fun split_on :: "char \<Rightarrow> string \<Rightarrow> string list" where
  "split_on c [] = [[]]"
| "split_on c (x # xs) =
     (if x = c then [] # split_on c xs
      else (case split_on c xs of [] \<Rightarrow> [[x]] | p # ps \<Rightarrow> (x # p) # ps))"

fun indexOf :: "'a \<Rightarrow> 'a list \<Rightarrow> int" where
  "indexOf x [] = - 1"
| "indexOf x (y # ys) = (if x = y then 0 else (let i = indexOf x ys in if i < 0 then - 1 else i + 1))"

fun join_with :: "string \<Rightarrow> string list \<Rightarrow> string" where
  "join_with sep [] = []"
| "join_with sep [p] = p"
| "join_with sep (p # q # ps) = p @ sep @ join_with sep (q # ps)"

definition path_of_url :: "string \<Rightarrow> string" where
  "path_of_url url =
     (let parts = split_on (CHR ''/'') url
      in join_with ''/'' (drop (nat (indexOf ''mitigation-images'' parts + 1)) parts))"

record file_preview =
  fp_file :: js_file
  fp_previewUrl :: string

text \<open>The page \<^verbatim>\<open>SubmitActivityPage\<close>, the plastic mitigation form.\<close>

record submit_page =
  sp_mitigatedPlasticKg :: string
  sp_imageFiles :: "file_preview list"
  sp_mitigationMessage :: string
  sp_mitigationError :: string

text \<open>
  The loop over \<^verbatim>\<open>imageFiles\<close>: each file is uploaded under
  \<^verbatim>\<open>${user.id}/${Date.now()}_${file.name}\<close>; the first failure is thrown, with the message on
  the left.
\<close>

fun upload_images ::
  "env \<Rightarrow> world \<Rightarrow> uuid \<Rightarrow> file_preview list \<Rightarrow> string list \<Rightarrow> (string + string list) \<times> world" where
  "upload_images e w uid [] uploadedImageUrls = (Inr uploadedImageUrls, w)"
| "upload_images e w uid (filePreview # rest) uploadedImageUrls =
     (let fileName = uid @ ''/'' @ string_of_nat (now e (length (requests w))) @ ''_''
                       @ f_name (fp_file filePreview) in
      case upload e w fileName (fp_file filePreview) of
        (Inl uploadError, w1) \<Rightarrow>
          (Inl (''Failed to upload '' @ f_name (fp_file filePreview) @ '': '' @ message uploadError), w1)
      | (Inr path, w1) \<Rightarrow>
          if public_url e path = []
          then (Inl (''Failed to get public URL for '' @ f_name (fp_file filePreview) @ ''.''), w1)
          else upload_images e w1 uid rest (uploadedImageUrls @ [public_url e path]))"

text \<open>
  \<^verbatim>\<open>handleSubmitPlasticMitigation\<close>. The uploaded files are removed again in one place only:
  when the insert of the entry fails.
\<close>

definition handleSubmitPlasticMitigation ::
  "env \<Rightarrow> world \<Rightarrow> auth_context \<Rightarrow> submit_page \<Rightarrow> submit_page \<times> world" where
  "handleSubmitPlasticMitigation e w ctx p =
     (case (ac_user ctx, ac_profile ctx) of
        (Some user, Some profile) \<Rightarrow>
          if sp_mitigatedPlasticKg p = [] \<or> le_zero (parseFloat (sp_mitigatedPlasticKg p))
          then (p\<lparr>sp_mitigationError := ''Please enter a valid amount for mitigated plastic (kg).''\<rparr>, w)
          else
            (let p0 = p\<lparr>sp_mitigationMessage := [], sp_mitigationError := []\<rparr>;
                 finished = p0\<lparr>sp_mitigationMessage := ''Plastic mitigation activity logged successfully!'',
                           sp_mitigatedPlasticKg := [], sp_imageFiles := []\<rparr> in
             case upload_images e w (u_id user) (sp_imageFiles p) [] of
               (Inl msg, w1) \<Rightarrow> (p0\<lparr>sp_mitigationError := or_else msg ''An unknown error occurred.''\<rparr>, w1)
             | (Inr uploadedImageUrls, w1) \<Rightarrow>
                 (case insert_mitigation_entry e w1 (u_id user) (parseFloat (sp_mitigatedPlasticKg p)) of
                    (Inl entryError, w2) \<Rightarrow>
                      (p0\<lparr>sp_mitigationError := or_else (message entryError) ''An unknown error occurred.''\<rparr>,
                       if uploadedImageUrls = [] then w2
                       else snd (remove e w2 (map path_of_url uploadedImageUrls)))
                  | (Inr mitigationEntry, w2) \<Rightarrow>
                      if uploadedImageUrls = [] then (finished, w2)
                      else
                        (case insert_mitigation_images e w2
                                (map (\<lambda>url. (m_id mitigationEntry, url)) uploadedImageUrls) of
                           (Some imageRecordError, w3) \<Rightarrow>
                             (p0\<lparr>sp_mitigationError := or_else (message imageRecordError)
                                                          ''An unknown error occurred.''\<rparr>, w3)
                         | (None, w3) \<Rightarrow> (finished, w3))))
      | _ \<Rightarrow> (p\<lparr>sp_mitigationError := ''You must be logged in to submit data.''\<rparr>, w))"


section \<open>Measures and scenarios\<close>

text \<open>The balance stored for a client, and the points of the ledger rows the client holds.\<close>

definition stored_balance :: "world \<Rightarrow> uuid \<Rightarrow> int option" where
  "stored_balance w cid =
     (case find (\<lambda>c. c_id c = cid) (clients w) of None \<Rightarrow> None | Some c \<Rightarrow> c_pgc_balance c)"

definition ledger_points :: "world \<Rightarrow> uuid \<Rightarrow> int" where
  "ledger_points w cid = sum_list (map (\<lambda>r. jr_pgc_amount (or_rewards r)) (obtained_rewards_of w cid))"

text \<open>What the admin does on the pages: open one, pick from its lists, press the button.\<close>

definition empty_assign_page :: assign_page where
  "empty_assign_page =
     \<lparr>ap_clients = [], ap_rewards = [], ap_selectedClient = None, ap_selectedReward = None,
      ap_notes = [], ap_error = None, ap_successMessage = None\<rparr>"

definition empty_view_page :: view_page where
  "empty_view_page =
     \<lparr>vp_client = None, vp_obtainedRewards = [], vp_error = None, vp_showRevokeModal = False,
      vp_clientRewardToRevoke = None, vp_revokeError = None\<rparr>"

definition open_assign_page :: "env \<Rightarrow> world \<Rightarrow> assign_page \<times> world" where
  "open_assign_page e w = fetchData e w empty_assign_page"

definition pick :: "uuid \<Rightarrow> uuid \<Rightarrow> assign_page \<Rightarrow> assign_page" where
  "pick cid rid p =
     p\<lparr>ap_selectedClient := find (\<lambda>c. co_value c = cid) (ap_clients p),
       ap_selectedReward := find (\<lambda>r. ro_value r = rid) (ap_rewards p)\<rparr>"

definition award :: "env \<Rightarrow> uuid \<Rightarrow> uuid \<Rightarrow> assign_page \<times> world \<Rightarrow> assign_page \<times> world" where
  "award e cid rid pw = handleSubmit e (snd pw) (pick cid rid (fst pw))"

definition open_view_page :: "env \<Rightarrow> world \<Rightarrow> uuid \<Rightarrow> view_page \<times> world" where
  "open_view_page e w cid = fetchAllClientData e w cid empty_view_page"

definition revoke :: "env \<Rightarrow> uuid \<Rightarrow> view_page \<times> world \<Rightarrow> view_page \<times> world" where
  "revoke e crid pw =
     (case find (\<lambda>r. or_id r = crid) (vp_obtainedRewards (fst pw)) of
        None \<Rightarrow> pw
      | Some r \<Rightarrow> confirmRevokeReward e (snd pw) (handleRevokeRequest r (fst pw)))"

text \<open>A backend that answers every request, and one that does not answer request \<open>k\<close>.\<close>

definition failed_to_fetch :: pg_error where
  "failed_to_fetch = \<lparr>code = [], message = ''TypeError: Failed to fetch''\<rparr>"

definition online :: env where
  "online =
     \<lparr>fault = (\<lambda>n. None),
      uuid_generate = (\<lambda>n k. ''row-'' @ string_of_nat n @ ''-'' @ string_of_nat k),
      now = (\<lambda>n. 1000 + n),
      public_url = (\<lambda>path. ''https://petgas.example/storage/v1/object/public/mitigation-images/'' @ path)\<rparr>"

definition offline_at :: "nat \<Rightarrow> env" where
  "offline_at k = online\<lparr>fault := (\<lambda>n. if n = k then Some failed_to_fetch else None)\<rparr>"

definition alice :: client where
  "alice =
     \<lparr>c_id = ''alice'', c_email = ''alice@example.com'', c_full_name = Some ''Alice'',
      c_solana_wallet = None, c_bnb_wallet = None, c_pgc_balance = Some 0,
      c_created_at = 1, c_updated_at = 1\<rparr>"

definition bob :: client where
  "bob =
     \<lparr>c_id = ''bob'', c_email = ''bob@example.com'', c_full_name = None,
      c_solana_wallet = None, c_bnb_wallet = None, c_pgc_balance = Some 10,
      c_created_at = 2, c_updated_at = 2\<rparr>"

definition gold :: reward where
  "gold = \<lparr>r_id = ''gold'', r_name = ''Gold'', r_description = None, r_pgc_amount = 50, r_created_at = 3\<rparr>"

definition silver :: reward where
  "silver = \<lparr>r_id = ''silver'', r_name = ''Silver'', r_description = None, r_pgc_amount = 30, r_created_at = 4\<rparr>"

definition portal :: world where
  "portal =
     \<lparr>clients = [alice, bob], rewards = [gold, silver], client_rewards = [],
      plastic_mitigation_entries = [], mitigation_activity_images = [], mitigation_images = [],
      requests = []\<rparr>"

text \<open>
  Alice starts at 0. The admin opens the assign page once and awards her Gold and then
  Silver from it.
\<close>

definition one_award :: "assign_page \<times> world" where
  "one_award = award online ''alice'' ''gold'' (open_assign_page online portal)"

definition two_awards :: "assign_page \<times> world" where
  "two_awards = award online ''alice'' ''silver'' one_award"

text \<open>
  Bob starts at 10 and is awarded Silver. The admin opens his details in two tabs, revokes
  the reward in the first, awards him Gold from a newly opened assign page, and then revokes
  the same ledger row in the second tab.
\<close>

definition bob_awarded :: "assign_page \<times> world" where
  "bob_awarded = award online ''bob'' ''silver'' (open_assign_page online portal)"

definition second_tab :: "view_page \<times> world" where
  "second_tab = open_view_page online (snd bob_awarded) ''bob''"

definition revoked_once :: "view_page \<times> world" where
  "revoked_once = revoke online ''row-2-0'' (open_view_page online (snd second_tab) ''bob'')"

definition bob_awarded_again :: "assign_page \<times> world" where
  "bob_awarded_again = award online ''bob'' ''gold'' (open_assign_page online (snd revoked_once))"

definition revoked_twice :: "view_page \<times> world" where
  "revoked_twice = revoke online ''row-2-0'' (fst second_tab, snd bob_awarded_again)"

text \<open>
  Bob starts at 10 and is awarded Silver; the admin opens his details in a tab. From a
  newly opened assign page Bob is awarded Gold, and then the Silver row, which he still
  holds, is revoked in the tab.
\<close>

definition bob_richer :: "assign_page \<times> world" where
  "bob_richer = award online ''bob'' ''gold'' (open_assign_page online (snd second_tab))"

definition stale_revoke :: "view_page \<times> world" where
  "stale_revoke = revoke online ''row-2-0'' (fst second_tab, snd bob_richer)"

text \<open>
  Bob, at 10 points, holds a Gold row of 50 (a balance an admin edited, or an award whose
  second write failed); the admin opens his details and revokes it.
\<close>

definition bob_holds_gold :: world where
  "bob_holds_gold =
     portal\<lparr>client_rewards :=
       [\<lparr>cr_id = ''row-g'', cr_client_id = ''bob'', cr_reward_id = ''gold'', cr_awarded_at = 5,
         cr_notes = None\<rparr>]\<rparr>"

definition revoke_form :: view_page where
  "revoke_form =
     (case fst (open_view_page online bob_holds_gold ''bob'') of p \<Rightarrow>
        (case vp_obtainedRewards p of [] \<Rightarrow> p | r # _ \<Rightarrow> handleRevokeRequest r p))"

definition award_form :: assign_page where
  "award_form = pick ''alice'' ''gold'' (fst (open_assign_page online portal))"

text \<open>The admin is about to delete a reward definition.\<close>

definition delete_form :: "reward \<Rightarrow> definitions_page" where
  "delete_form r =
     handleDeleteRequest r
       \<lparr>dp_rewards = [silver, gold], dp_error = None, dp_showDeleteModal = False,
        dp_rewardToDelete = None\<rparr>"

text \<open>Alice is signed in, with two photos on the mitigation form.\<close>

definition alice_session :: auth_context where
  "alice_session =
     \<lparr>ac_user = Some \<lparr>u_id = ''alice'', u_email = ''alice@example.com'', u_full_name = None\<rparr>,
      ac_profile = Some alice\<rparr>"

definition mitigation_form :: "string \<Rightarrow> submit_page" where
  "mitigation_form kg =
     \<lparr>sp_mitigatedPlasticKg = kg,
      sp_imageFiles =
        [\<lparr>fp_file = \<lparr>f_name = ''a.png'', f_bytes = ''A''\<rparr>, fp_previewUrl = ''blob:a''\<rparr>,
         \<lparr>fp_file = \<lparr>f_name = ''b.png'', f_bytes = ''B''\<rparr>, fp_previewUrl = ''blob:b''\<rparr>],
      sp_mitigationMessage = [], sp_mitigationError = []\<rparr>"

definition second_upload_fails :: "submit_page \<times> world" where
  "second_upload_fails =
     handleSubmitPlasticMitigation (offline_at 1) portal alice_session (mitigation_form ''12.5'')"

text \<open>Alice edits her profile; in \<open>alice_deleted\<close> an admin has deleted her row meanwhile.\<close>

definition profile_form :: profile_page where
  "profile_form =
     \<lparr>pp_fullName = ''Alice B'', pp_solanaWallet = ''So1'', pp_bnbWallet = ''0xB'',
      pp_message = [], pp_error = []\<rparr>"

definition alice_deleted :: world where
  "alice_deleted = portal\<lparr>clients := [bob]\<rparr>"

section \<open>Evaluating the model\<close>

lemmas backend_defs =
  receive_def select_from_def insert_client_reward_def update_pgc_balance_def
  update_pgc_balance_single_def set_pgc_balance_def delete_client_reward_def delete_reward_def
  select_client_single_def insert_client_def upsert_client_def overwrite_profile_def
  upload_def remove_def insert_mitigation_entry_def insert_mitigation_images_def
  foreign_key_violation_def unique_violation_def not_null_violation_def check_violation_def
  no_rows_def already_exists_def

lemmas js_defs =
  or_else_def opt_or_else_def or_null_def opt_or_null_def or_zero_def string_of_int_def string_of_nat.simps
  parseFloat_def unsigned_literal_def white_space_def is_digit_def round_double_def digits_value_def
  scale10_def exponent_def path_of_url_def

lemmas handler_defs =
  fetchData_def client_option_of_def reward_option_of_def handleSubmit_def
  fetchAllClientData_def obtained_rewards_of_def join_reward_def handleRevokeRequest_def
  confirmRevokeReward_def handleDeleteRequest_def confirmDeleteReward_def
  fetchAndSetProfile_def refreshProfile_def handleUpdateProfile_def
  handleSubmitPlasticMitigation_def

lemmas scenario_defs =
  stored_balance_def ledger_points_def empty_assign_page_def empty_view_page_def
  open_assign_page_def pick_def award_def open_view_page_def revoke_def failed_to_fetch_def
  online_def offline_at_def alice_def bob_def gold_def silver_def portal_def one_award_def
  two_awards_def bob_awarded_def second_tab_def revoked_once_def bob_awarded_again_def
  revoked_twice_def bob_richer_def stale_revoke_def bob_holds_gold_def revoke_form_def award_form_def delete_form_def
  alice_session_def mitigation_form_def second_upload_fails_def profile_form_def
  alice_deleted_def

text \<open>The stored balance of a client whose row exists once, after an update of it.\<close>

lemma find_filter_single:
  "filter P xs = [x] \<Longrightarrow> find P xs = Some x"
  by (induction xs) (auto split: if_splits simp: filter_empty_conv find_None_iff)

lemma find_map_set_balance:
  assumes "find (\<lambda>c. c_id c = cid) cs = Some c"
  shows "find (\<lambda>c. c_id c = cid) (map (set_pgc_balance cid b t) cs) = Some (set_pgc_balance cid b t c)"
  using assms by (induction cs) (auto simp: set_pgc_balance_def split: if_splits)

lemma stored_balance_after_update:
  assumes "filter (\<lambda>x. c_id x = cid) (clients w) = [row]"
  shows "stored_balance (w'\<lparr>clients := map (set_pgc_balance cid b t) (clients w)\<rparr>) cid = Some b"
proof -
  have "row \<in> set (filter (\<lambda>x. c_id x = cid) (clients w))"
    using assms by simp
  then have "c_id row = cid"
    by simp
  then show ?thesis
    using find_map_set_balance[OF find_filter_single[OF assms], of b t]
    by (simp add: stored_balance_def set_pgc_balance_def)
qed

section \<open>The two writes of a reward\<close>

text \<open>
  Awarding: the ledger row is in, the write of the balance fails. The handler ends in its
  \<^verbatim>\<open>catch\<close> with the message of that failure; the row stays and no balance has changed.
\<close>

lemma handleSubmit_partial_failure:
  assumes "ap_selectedClient p = Some sc" and "ap_selectedReward p = Some sr"
    and "insert_client_reward e w (co_value sc) (ro_value sr) (or_null (ap_notes p))
           (now e (length (requests w))) = (None, w1)"
    and "update_pgc_balance e w1 (co_value sc) (co_current_pgc_balance sc + ro_pgc_amount sr) = (Some err, w2)"
  shows "handleSubmit e w p =
           (p\<lparr>ap_error := Some (''Updating PGC balance: '' @ message err
                                  @ ''. Please manually verify client balance.''),
              ap_successMessage := None\<rparr>, w2)"
    and "clients w2 = clients w"
    and "client_rewards w2 = client_rewards w @
           [\<lparr>cr_id = uuid_generate e (length (requests w)) 0, cr_client_id = co_value sc,
             cr_reward_id = ro_value sr, cr_awarded_at = now e (length (requests w)),
             cr_notes = or_null (ap_notes p)\<rparr>]"
proof -
  show "handleSubmit e w p =
           (p\<lparr>ap_error := Some (''Updating PGC balance: '' @ message err
                                  @ ''. Please manually verify client balance.''),
              ap_successMessage := None\<rparr>, w2)"
    using assms by (simp add: handleSubmit_def or_else_def)
  have w1: "clients w1 = clients w \<and> client_rewards w1 = client_rewards w @
           [\<lparr>cr_id = uuid_generate e (length (requests w)) 0, cr_client_id = co_value sc,
             cr_reward_id = ro_value sr, cr_awarded_at = now e (length (requests w)),
             cr_notes = or_null (ap_notes p)\<rparr>]"
    using assms(3)
    by (auto simp add: insert_client_reward_def receive_def Let_def split: option.splits if_splits)
  have w2: "clients w2 = clients w1 \<and> client_rewards w2 = client_rewards w1"
    using assms(4)
    by (auto simp add: update_pgc_balance_def receive_def Let_def split: option.splits)
  show "clients w2 = clients w"
    using w1 w2 by simp
  show "client_rewards w2 = client_rewards w @
           [\<lparr>cr_id = uuid_generate e (length (requests w)) 0, cr_client_id = co_value sc,
             cr_reward_id = ro_value sr, cr_awarded_at = now e (length (requests w)),
             cr_notes = or_null (ap_notes p)\<rparr>]"
    using w1 w2 by simp
qed

lemma handleSubmit_message_only_partial:
  assumes "ap_error (fst (handleSubmit e w p)) = Some (''Updating PGC balance: '' @ m)"
  shows "(\<exists>row. client_rewards (snd (handleSubmit e w p)) = client_rewards w @ [row])
       \<and> clients (snd (handleSubmit e w p)) = clients w"
  using assms
  by (auto simp add: handleSubmit_def insert_client_reward_def update_pgc_balance_def receive_def
        or_else_def Let_def split: option.splits if_splits)

lemma confirmRevokeReward_partial_failure:
  assumes "vp_clientRewardToRevoke q = Some cr" and "vp_client q = Some c"
    and "delete_client_reward e v (or_id cr) = (None, v1)"
    and "update_pgc_balance_single e v1 (c_id c)
           (max 0 (or_zero (c_pgc_balance c) - jr_pgc_amount (or_rewards cr))) = (Inl err, v2)"
  shows "confirmRevokeReward e v q =
           (q\<lparr>vp_revokeError := Some (''Updating PGC balance failed: '' @ message err
                  @ ''. Manual PGC adjustment for client '' @ c_email c @ '' might be needed.'')\<rparr>, v2)"
    and "clients v2 = clients v"
    and "client_rewards v2 = filter (\<lambda>r. cr_id r \<noteq> or_id cr) (client_rewards v)"
proof -
  show "confirmRevokeReward e v q =
           (q\<lparr>vp_revokeError := Some (''Updating PGC balance failed: '' @ message err
                  @ ''. Manual PGC adjustment for client '' @ c_email c @ '' might be needed.'')\<rparr>, v2)"
    using assms by (simp add: confirmRevokeReward_def or_else_def)
  have v1: "clients v1 = clients v \<and> client_rewards v1 = filter (\<lambda>r. cr_id r \<noteq> or_id cr) (client_rewards v)"
    using assms(3)
    by (auto simp add: delete_client_reward_def receive_def Let_def split: option.splits)
  have v2: "clients v2 = clients v1 \<and> client_rewards v2 = client_rewards v1"
    using assms(4)
    by (auto simp add: update_pgc_balance_single_def receive_def Let_def split: option.splits list.splits)
  show "clients v2 = clients v"
    using v1 v2 by simp
  show "client_rewards v2 = filter (\<lambda>r. cr_id r \<noteq> or_id cr) (client_rewards v)"
    using v1 v2 by simp
qed

lemma confirmRevokeReward_message_only_partial:
  assumes "vp_clientRewardToRevoke q = Some cr" and "vp_client q = Some c"
    and "vp_revokeError (fst (confirmRevokeReward e v q)) = Some (''Updating PGC balance failed: '' @ m)"
  shows "client_rewards (snd (confirmRevokeReward e v q)) =
           filter (\<lambda>r. cr_id r \<noteq> or_id cr) (client_rewards v)
       \<and> clients (snd (confirmRevokeReward e v q)) = clients v"
  using assms
  by (auto simp add: confirmRevokeReward_def delete_client_reward_def update_pgc_balance_single_def
        receive_def or_else_def Let_def split: option.splits if_splits list.splits)

text \<open>
  C2. When the write of the ledger succeeds and the write of the balance fails, awarding
  ends with the message \<^verbatim>\<open>Updating PGC balance: ... Please manually verify client balance.\<close>
  and revoking with \<^verbatim>\<open>Updating PGC balance failed: ... Manual PGC adjustment for client ...
  might be needed.\<close>; the state is left as the first write made it (the ledger row present,
  respectively deleted) and no balance is changed. The message is the error kind: every run
  of the handler that ends with it (for the revoke, a run on a page with a reward and a
  client selected, which is when the handler does anything) is such a partial failure, so
  no other failure is reported this way.
\<close>

theorem partial_failure_reported_distinctly:
  assumes "ap_selectedClient p = Some sc" and "ap_selectedReward p = Some sr"
    and "insert_client_reward e w (co_value sc) (ro_value sr) (or_null (ap_notes p))
           (now e (length (requests w))) = (None, w1)"
    and "update_pgc_balance e w1 (co_value sc) (co_current_pgc_balance sc + ro_pgc_amount sr) = (Some err, w2)"
    and "vp_clientRewardToRevoke q = Some cr" and "vp_client q = Some c"
    and "delete_client_reward f v (or_id cr) = (None, v1)"
    and "update_pgc_balance_single f v1 (c_id c)
           (max 0 (or_zero (c_pgc_balance c) - jr_pgc_amount (or_rewards cr))) = (Inl err', v2)"
  shows "handleSubmit e w p =
           (p\<lparr>ap_error := Some (''Updating PGC balance: '' @ message err
                                  @ ''. Please manually verify client balance.''),
              ap_successMessage := None\<rparr>, w2)
       \<and> clients w2 = clients w
       \<and> client_rewards w2 = client_rewards w @
           [\<lparr>cr_id = uuid_generate e (length (requests w)) 0, cr_client_id = co_value sc,
             cr_reward_id = ro_value sr, cr_awarded_at = now e (length (requests w)),
             cr_notes = or_null (ap_notes p)\<rparr>]
       \<and> (\<forall>e' w' p'.
             ap_error (fst (handleSubmit e' w' p')) =
               Some (''Updating PGC balance: '' @ message err @ ''. Please manually verify client balance.'')
             \<longrightarrow> (\<exists>row. client_rewards (snd (handleSubmit e' w' p')) = client_rewards w' @ [row])
                 \<and> clients (snd (handleSubmit e' w' p')) = clients w')
       \<and> confirmRevokeReward f v q =
           (q\<lparr>vp_revokeError := Some (''Updating PGC balance failed: '' @ message err'
                  @ ''. Manual PGC adjustment for client '' @ c_email c @ '' might be needed.'')\<rparr>, v2)
       \<and> clients v2 = clients v
       \<and> client_rewards v2 = filter (\<lambda>r. cr_id r \<noteq> or_id cr) (client_rewards v)
       \<and> (\<forall>f' v' q' cr' c'.
             vp_clientRewardToRevoke q' = Some cr' \<and> vp_client q' = Some c'
             \<and> vp_revokeError (fst (confirmRevokeReward f' v' q')) =
                 Some (''Updating PGC balance failed: '' @ message err'
                       @ ''. Manual PGC adjustment for client '' @ c_email c @ '' might be needed.'')
             \<longrightarrow> client_rewards (snd (confirmRevokeReward f' v' q')) =
                   filter (\<lambda>r. cr_id r \<noteq> or_id cr') (client_rewards v')
                 \<and> clients (snd (confirmRevokeReward f' v' q')) = clients v')"
  using handleSubmit_partial_failure[OF assms(1-4)] handleSubmit_message_only_partial
    confirmRevokeReward_partial_failure[OF assms(5-8)] confirmRevokeReward_message_only_partial
  by blast

text \<open>
  The backend stops answering at the second write: of Gold for Alice (request 3), and of
  the revoke of Bob's Gold (request 5). One request earlier the message is another one.
\<close>

theorem partial_failure_reported_distinctly_witness:
  "ap_selectedClient award_form \<noteq> None \<and> ap_selectedReward award_form \<noteq> None
   \<and> fst (insert_client_reward (offline_at 3) (snd (open_assign_page online portal)) ''alice'' ''gold'' None 1002) = None
   \<and> ap_error (fst (handleSubmit (offline_at 3) (snd (open_assign_page online portal)) award_form)) =
       Some ''Updating PGC balance: TypeError: Failed to fetch. Please manually verify client balance.''
   \<and> stored_balance (snd (handleSubmit (offline_at 3) (snd (open_assign_page online portal)) award_form)) ''alice'' = Some 0
   \<and> map cr_reward_id (client_rewards (snd (handleSubmit (offline_at 3) (snd (open_assign_page online portal)) award_form))) = [''gold'']
   \<and> ap_error (fst (handleSubmit (offline_at 2) (snd (open_assign_page online portal)) award_form)) =
       Some ''Assigning reward: TypeError: Failed to fetch''
   \<and> vp_clientRewardToRevoke revoke_form \<noteq> None \<and> vp_client revoke_form = Some bob
   \<and> fst (delete_client_reward (offline_at 5) (snd (open_view_page online bob_holds_gold ''bob'')) ''row-g'') = None
   \<and> vp_revokeError (fst (confirmRevokeReward (offline_at 5) (snd (open_view_page online bob_holds_gold ''bob'')) revoke_form)) =
       Some ''Updating PGC balance failed: TypeError: Failed to fetch. Manual PGC adjustment for client bob@example.com might be needed.''
   \<and> stored_balance (snd (confirmRevokeReward (offline_at 5) (snd (open_view_page online bob_holds_gold ''bob'')) revoke_form)) ''bob'' = Some 10
   \<and> client_rewards (snd (confirmRevokeReward (offline_at 5) (snd (open_view_page online bob_holds_gold ''bob'')) revoke_form)) = []
   \<and> vp_revokeError (fst (confirmRevokeReward (offline_at 4) (snd (open_view_page online bob_holds_gold ''bob'')) revoke_form)) =
       Some ''Deleting client_reward entry: TypeError: Failed to fetch''"
proof -
  let ?e = "offline_at 3" and ?w = "snd (open_assign_page online portal)"
  let ?sc = "\<lparr>co_value = ''alice'', co_label = ''Alice (alice@example.com)'', co_current_pgc_balance = 0\<rparr>"
  let ?sr = "\<lparr>ro_value = ''gold'', ro_label = ''Gold (+50 PGC)'', ro_pgc_amount = 50\<rparr>"
  let ?w1 = "snd (insert_client_reward ?e ?w ''alice'' ''gold'' None 1002)"
  let ?w2 = "snd (update_pgc_balance ?e ?w1 ''alice'' 50)"
  let ?f = "offline_at 5" and ?v = "snd (open_view_page online bob_holds_gold ''bob'')"
  let ?cr = "\<lparr>or_id = ''row-g'', or_awarded_at = 5, or_notes = None,
              or_rewards = \<lparr>jr_id = ''gold'', jr_name = ''Gold'', jr_description = None, jr_pgc_amount = 50\<rparr>\<rparr>"
  let ?v1 = "snd (delete_client_reward ?f ?v ''row-g'')"
  let ?v2 = "snd (update_pgc_balance_single ?f ?v1 ''bob'' 0)"
  have sc: "ap_selectedClient award_form = Some ?sc"
    by (simp add: scenario_defs handler_defs backend_defs js_defs)
  have sr: "ap_selectedReward award_form = Some ?sr"
    by (simp add: scenario_defs handler_defs backend_defs js_defs)
  have nt: "or_null (ap_notes award_form) = None"
    by (simp add: scenario_defs handler_defs backend_defs js_defs)
  have t: "now ?e (length (requests ?w)) = 1002"
    by (simp add: scenario_defs handler_defs backend_defs)
  have ins0: "fst (insert_client_reward ?e ?w ''alice'' ''gold'' None 1002) = None"
    by (simp add: scenario_defs handler_defs backend_defs)
  have ins: "insert_client_reward ?e ?w (co_value ?sc) (ro_value ?sr) (or_null (ap_notes award_form))
               (now ?e (length (requests ?w))) = (None, ?w1)"
    using ins0 nt t by (simp add: prod_eq_iff)
  have upd0: "fst (update_pgc_balance ?e ?w1 ''alice'' 50) = Some failed_to_fetch"
    by (simp add: scenario_defs handler_defs backend_defs)
  have upd: "update_pgc_balance ?e ?w1 (co_value ?sc) (co_current_pgc_balance ?sc + ro_pgc_amount ?sr)
               = (Some failed_to_fetch, ?w2)"
    using upd0 by (simp add: prod_eq_iff)
  have cr: "vp_clientRewardToRevoke revoke_form = Some ?cr"
    by (simp add: scenario_defs handler_defs backend_defs)
  have cl: "vp_client revoke_form = Some bob"
    by (simp add: scenario_defs handler_defs backend_defs)
  have del0: "fst (delete_client_reward ?f ?v ''row-g'') = None"
    by (simp add: scenario_defs handler_defs backend_defs)
  have del: "delete_client_reward ?f ?v (or_id ?cr) = (None, ?v1)"
    using del0 by (simp add: prod_eq_iff)
  have nb: "max 0 (or_zero (c_pgc_balance bob) - jr_pgc_amount (or_rewards ?cr)) = 0" "c_id bob = ''bob''"
    by (simp_all add: bob_def or_zero_def)
  have upr0: "fst (update_pgc_balance_single ?f ?v1 ''bob'' 0) = Inl failed_to_fetch"
    by (simp add: scenario_defs handler_defs backend_defs)
  have upr: "update_pgc_balance_single ?f ?v1 (c_id bob)
               (max 0 (or_zero (c_pgc_balance bob) - jr_pgc_amount (or_rewards ?cr))) = (Inl failed_to_fetch, ?v2)"
    using upr0 nb by (simp add: prod_eq_iff)
  have before: "stored_balance ?w ''alice'' = Some 0" "client_rewards ?w = []"
    "stored_balance ?v ''bob'' = Some 10" "map cr_id (client_rewards ?v) = [''row-g'']"
    by (simp_all add: scenario_defs handler_defs backend_defs)
  have other: "ap_error (fst (handleSubmit (offline_at 2) ?w award_form)) =
                 Some ''Assigning reward: TypeError: Failed to fetch''"
    "vp_revokeError (fst (confirmRevokeReward (offline_at 4) ?v revoke_form)) =
       Some ''Deleting client_reward entry: TypeError: Failed to fetch''"
    by (simp_all add: scenario_defs handler_defs backend_defs js_defs)
  have msg: "message failed_to_fetch = ''TypeError: Failed to fetch''" "c_email bob = ''bob@example.com''"
    by (simp_all add: failed_to_fetch_def bob_def)
  note main = partial_failure_reported_distinctly[OF sc sr ins upd cr cl del upr]
  have a: "handleSubmit ?e ?w award_form =
             (award_form\<lparr>ap_error := Some (''Updating PGC balance: '' @ message failed_to_fetch
                                  @ ''. Please manually verify client balance.''),
              ap_successMessage := None\<rparr>, ?w2)"
    and a1: "clients ?w2 = clients ?w"
    and a2: "client_rewards ?w2 = client_rewards ?w @
           [\<lparr>cr_id = uuid_generate ?e (length (requests ?w)) 0, cr_client_id = co_value ?sc,
             cr_reward_id = ro_value ?sr, cr_awarded_at = now ?e (length (requests ?w)),
             cr_notes = or_null (ap_notes award_form)\<rparr>]"
    and b: "confirmRevokeReward ?f ?v revoke_form =
           (revoke_form\<lparr>vp_revokeError := Some (''Updating PGC balance failed: '' @ message failed_to_fetch
                  @ ''. Manual PGC adjustment for client '' @ c_email bob @ '' might be needed.'')\<rparr>, ?v2)"
    and b1: "clients ?v2 = clients ?v"
    and b2: "client_rewards ?v2 = filter (\<lambda>r. cr_id r \<noteq> or_id ?cr) (client_rewards ?v)"
    using main by blast+
  have sa: "stored_balance ?w2 ''alice'' = Some 0"
    using a1 before(1) by (simp add: stored_balance_def)
  have sb: "stored_balance ?v2 ''bob'' = Some 10"
    using b1 before(3) by (simp add: stored_balance_def)
  have la: "map cr_reward_id (client_rewards ?w2) = [''gold'']"
    using a2 before(2) by simp
  have "filter (\<lambda>r. cr_id r \<noteq> ''row-g'') (client_rewards ?v) = []"
    using before(4) by (auto simp add: filter_empty_conv)
  then have lb: "client_rewards ?v2 = []"
    using b2 by simp
  show ?thesis
    using sc sr ins0 a sa la other cr cl del0 b sb lb msg by simp
qed

section \<open>Awarding from a page opened earlier\<close>

text \<open>
  An award whose two requests are answered sends the insert of the ledger row and then the
  update of the balance to \<open>B + V\<close>, with \<open>B\<close> the balance of the option picked on the
  page and \<open>V\<close> the amount of the reward picked. The stored balance grows by \<open>V\<close> when
  \<open>B\<close> is the stored balance, as it is on a page that was just opened.
\<close>

lemma handleSubmit_success:
  assumes "ap_selectedClient p = Some sc" and "ap_selectedReward p = Some sr"
    and "fault e (length (requests w)) = None" and "fault e (Suc (length (requests w))) = None"
    and "filter (\<lambda>x. c_id x = co_value sc) (clients w) = [row]"
    and "ro_value sr \<in> set (map r_id (rewards w))"
    and "uuid_generate e (length (requests w)) 0 \<notin> set (map cr_id (client_rewards w))"
  shows "requests (snd (handleSubmit e w p)) =
           requests w @ [InsertClientReward (co_value sc) (ro_value sr) (or_null (ap_notes p)),
                         UpdatePgcBalance (co_value sc) (co_current_pgc_balance sc + ro_pgc_amount sr)]"
    and "stored_balance (snd (handleSubmit e w p)) (co_value sc) =
           Some (co_current_pgc_balance sc + ro_pgc_amount sr)"
    and "ap_error (fst (handleSubmit e w p)) = None"
proof -
  have "row \<in> set (filter (\<lambda>x. c_id x = co_value sc) (clients w))"
    using assms(5) by simp
  then have "row \<in> set (clients w)" and "c_id row = co_value sc"
    by simp_all
  then have mem: "co_value sc \<in> set (map c_id (clients w))"
    by (metis image_eqI set_map)
  have res: "snd (handleSubmit e w p) =
     w\<lparr>requests := requests w @ [InsertClientReward (co_value sc) (ro_value sr) (or_null (ap_notes p)),
                         UpdatePgcBalance (co_value sc) (co_current_pgc_balance sc + ro_pgc_amount sr)],
       client_rewards := client_rewards w @
         [\<lparr>cr_id = uuid_generate e (length (requests w)) 0, cr_client_id = co_value sc,
           cr_reward_id = ro_value sr, cr_awarded_at = now e (length (requests w)),
           cr_notes = or_null (ap_notes p)\<rparr>],
       clients := map (set_pgc_balance (co_value sc) (co_current_pgc_balance sc + ro_pgc_amount sr)
                        (now e (Suc (length (requests w))))) (clients w)\<rparr>"
    using assms(1-4,6,7) mem
    by (simp add: handleSubmit_def insert_client_reward_def update_pgc_balance_def receive_def Let_def)
  show "requests (snd (handleSubmit e w p)) =
           requests w @ [InsertClientReward (co_value sc) (ro_value sr) (or_null (ap_notes p)),
                         UpdatePgcBalance (co_value sc) (co_current_pgc_balance sc + ro_pgc_amount sr)]"
    using res by simp
  show "stored_balance (snd (handleSubmit e w p)) (co_value sc) =
           Some (co_current_pgc_balance sc + ro_pgc_amount sr)"
    using res stored_balance_after_update[OF assms(5)] by simp
  show "ap_error (fst (handleSubmit e w p)) = None"
    using assms(1-4,6,7) mem
    by (simp add: handleSubmit_def insert_client_reward_def update_pgc_balance_def receive_def Let_def)
qed

text \<open>The two awards, evaluated once.\<close>

lemma two_awards_eval:
  "(case one_award of (p1, w1) \<Rightarrow>
      (case two_awards of (p2, w2) \<Rightarrow>
         (stored_balance portal ''alice'', ap_error p1, ap_error p2, ap_successMessage p1 = None,
          ap_successMessage p2 = None, map cr_reward_id (client_rewards w2),
          ledger_points w2 ''alice'', stored_balance w2 ''alice'',
          ap_clients p1 = ap_clients (fst (open_assign_page online portal)),
          stored_balance w1 ''alice'',
          map ro_pgc_amount (filter (\<lambda>r. ro_value r = ''silver'') (ap_rewards p1)),
          requests w2 = requests w1 @ [InsertClientReward ''alice'' ''silver'' None, UpdatePgcBalance ''alice'' 30]))) =
   (Some 0, None, None, False, False, [''gold'', ''silver''], 80, Some 30, True, Some 50, [30], True)"
  by code_simp

text \<open>
  C1. The claim: starting from a balance of 0, after any sequence of awards and revokes
  that all succeed the stored balance is the sum of the points of the ledger rows held.
  The program at a sequence of two awards: the admin opens the assign page, awards Alice
  (balance 0) Gold, 50 points, and then Silver, 30 points, from the same page. Both runs of
  \<^verbatim>\<open>handleSubmit\<close> end with the success message. Alice holds both ledger rows, 80 points, and
  her stored balance is 30: the second run added to the balance the page had read when it
  was opened, not to the stored one.
\<close>

theorem two_awards_balance_diverges:
  "stored_balance portal ''alice'' = Some 0
   \<and> ap_error (fst one_award) = None \<and> ap_error (fst two_awards) = None
   \<and> ap_successMessage (fst one_award) \<noteq> None \<and> ap_successMessage (fst two_awards) \<noteq> None
   \<and> map cr_reward_id (client_rewards (snd two_awards)) = [''gold'', ''silver'']
   \<and> ledger_points (snd two_awards) ''alice'' = 80
   \<and> stored_balance (snd two_awards) ''alice'' = Some 30"
  using two_awards_eval by (simp add: case_prod_beta)

text \<open>
  C7. The claim: a successful award reads the current balance \<open>B\<close> and writes \<open>B + V\<close>, so
  the balance grows by exactly \<open>V\<close>. The program at the second award above: the list of
  clients on the page is still the one read when the page was opened, the stored balance
  is 50 and the reward is worth 30; the run succeeds, inserts the ledger row, then writes
  30, and the stored balance goes from 50 to 30.
\<close>

theorem second_award_balance_not_increased:
  "ap_clients (fst one_award) = ap_clients (fst (open_assign_page online portal))
   \<and> stored_balance (snd one_award) ''alice'' = Some 50
   \<and> map ro_pgc_amount (filter (\<lambda>r. ro_value r = ''silver'') (ap_rewards (fst one_award))) = [30]
   \<and> ap_error (fst two_awards) = None
   \<and> requests (snd two_awards) =
       requests (snd one_award) @ [InsertClientReward ''alice'' ''silver'' None, UpdatePgcBalance ''alice'' 30]
   \<and> stored_balance (snd two_awards) ''alice'' = Some 30"
  using two_awards_eval by (simp add: case_prod_beta)

section \<open>Revoking a reward\<close>

text \<open>
  When both requests are answered, \<^verbatim>\<open>confirmRevokeReward\<close> changes the backend in two places:
  the ledger row is deleted, and the balance of the client is set to the maximum of 0 and
  the balance the page holds for the client less the amount of the reward.
\<close>

lemma confirmRevokeReward_success:
  assumes "vp_clientRewardToRevoke p = Some cr" and "vp_client p = Some c"
    and "fault e (length (requests w)) = None" and "fault e (Suc (length (requests w))) = None"
    and "filter (\<lambda>x. c_id x = c_id c) (clients w) = [row]"
  shows "snd (confirmRevokeReward e w p) =
           w\<lparr>requests := requests w @ [DeleteClientReward (or_id cr),
                  UpdatePgcBalance (c_id c) (max 0 (or_zero (c_pgc_balance c) - jr_pgc_amount (or_rewards cr)))],
             client_rewards := filter (\<lambda>r. cr_id r \<noteq> or_id cr) (client_rewards w),
             clients := map (set_pgc_balance (c_id c)
                              (max 0 (or_zero (c_pgc_balance c) - jr_pgc_amount (or_rewards cr)))
                              (now e (Suc (length (requests w))))) (clients w)\<rparr>"
  using assms
  by (simp add: confirmRevokeReward_def delete_client_reward_def update_pgc_balance_single_def
        receive_def Let_def)

text \<open>The revoke from the tab that was opened before the second award, evaluated once.\<close>

lemma stale_revoke_eval:
  "(case second_tab of (p2, w2) \<Rightarrow>
      (case bob_richer of (p3, w3) \<Rightarrow>
         (case stale_revoke of (p4, w4) \<Rightarrow>
            (map_option c_pgc_balance (vp_client p2),
             map (\<lambda>r. jr_pgc_amount (or_rewards r))
               (filter (\<lambda>r. or_id r = ''row-2-0'') (vp_obtainedRewards p2)),
             stored_balance w3 ''bob'', map cr_id (client_rewards w3),
             requests w4 = requests w3 @ [DeleteClientReward ''row-2-0'', UpdatePgcBalance ''bob'' 10],
             vp_revokeError p4, map cr_id (client_rewards w4), ledger_points w4 ''bob'',
             stored_balance w4 ''bob'')))) =
   (Some (Some 40), [30], Some 90, [''row-2-0'', ''row-10-0''], True, None, [''row-10-0''], 50,
    Some 10)"
  by code_simp

text \<open>
  C3. The claim: with \<open>B\<close> the balance of the client and \<open>V\<close> the amount of the reward,
  revoking writes \<open>max 0 (B - V)\<close> after deleting the ledger row, never a negative number.
  The program: Bob (balance 10) is awarded Silver, 30 points (balance 40), and his details
  are opened in a tab; from a newly opened assign page he is awarded Gold, 50 points
  (balance 90). The Silver row, which exists, is then revoked in the tab. The delete is
  sent and then the update, no error is shown, and the balance written is
  \<open>max 0 (40 - 30) = 10\<close>, from the balance the tab read when it was opened, not
  \<open>max 0 (90 - 30) = 60\<close>: Bob holds Gold, 50 points, with a stored balance of 10. The
  number written is the maximum of 0 and a difference, so it is not negative.
\<close>

theorem stale_revoke_ignores_stored_balance:
  "map_option c_pgc_balance (vp_client (fst second_tab)) = Some (Some 40)
   \<and> map (\<lambda>r. jr_pgc_amount (or_rewards r))
         (filter (\<lambda>r. or_id r = ''row-2-0'') (vp_obtainedRewards (fst second_tab))) = [30]
   \<and> stored_balance (snd bob_richer) ''bob'' = Some 90
   \<and> map cr_id (client_rewards (snd bob_richer)) = [''row-2-0'', ''row-10-0'']
   \<and> requests (snd stale_revoke) =
       requests (snd bob_richer) @ [DeleteClientReward ''row-2-0'', UpdatePgcBalance ''bob'' 10]
   \<and> vp_revokeError (fst stale_revoke) = None
   \<and> map cr_id (client_rewards (snd stale_revoke)) = [''row-10-0'']
   \<and> ledger_points (snd stale_revoke) ''bob'' = 50
   \<and> stored_balance (snd stale_revoke) ''bob'' = Some 10"
  using stale_revoke_eval by (simp add: case_prod_beta)

text \<open>The scenario of the two tabs, evaluated once.\<close>

lemma revoked_twice_eval:
  "(case bob_awarded_again of (p4, w4) \<Rightarrow>
      (case revoked_twice of (p5, w5) \<Rightarrow>
         (DeleteClientReward ''row-2-0'' \<in> set (requests w4), map cr_id (client_rewards w4),
          stored_balance w4 ''bob'', requests w5 = requests w4 @ [DeleteClientReward ''row-2-0'', UpdatePgcBalance ''bob'' 10],
          vp_revokeError p5, client_rewards w5 = client_rewards w4, ledger_points w5 ''bob'',
          stored_balance w5 ''bob''))) =
   (True, [''row-16-0''], Some 60, True, None, True, 50, Some 10)"
  by code_simp

text \<open>
  C4. The claim: revoking a ledger row that is already removed is a no-op or fails with a
  not-found error, and the balance stays as it is. The program: Bob (balance 10) is
  awarded Silver (balance 40) and his details are opened in two tabs. The row is revoked in
  the first tab (balance 10), Bob is awarded Gold from a newly opened assign page (balance
  60), and the row is revoked again in the second tab. The second revoke deletes nothing,
  reports no error, and writes \<open>max 0 (40 - 30) = 10\<close> from the numbers of its tab: the
  balance goes from 60 to 10 while Bob holds Gold, 50 points.
\<close>

theorem second_revoke_changes_balance:
  "DeleteClientReward ''row-2-0'' \<in> set (requests (snd bob_awarded_again))
   \<and> map cr_id (client_rewards (snd bob_awarded_again)) = [''row-16-0'']
   \<and> stored_balance (snd bob_awarded_again) ''bob'' = Some 60
   \<and> requests (snd revoked_twice) =
       requests (snd bob_awarded_again) @ [DeleteClientReward ''row-2-0'', UpdatePgcBalance ''bob'' 10]
   \<and> vp_revokeError (fst revoked_twice) = None
   \<and> client_rewards (snd revoked_twice) = client_rewards (snd bob_awarded_again)
   \<and> ledger_points (snd revoked_twice) ''bob'' = 50
   \<and> stored_balance (snd revoked_twice) ''bob'' = Some 10"
  using revoked_twice_eval by (simp add: case_prod_beta)

section \<open>Submitting a mitigation\<close>

text \<open>
  C6. A mitigation whose amount parses to a number that is not above zero (or whose field
  is empty) ends with the validation message, and the backend is exactly as before: no
  request was sent, so no image was uploaded and no row was inserted.
\<close>

theorem nonpositive_kg_rejected:
  assumes "ac_user ctx = Some user" and "ac_profile ctx = Some profile"
    and "sp_mitigatedPlasticKg p = [] \<or> le_zero (parseFloat (sp_mitigatedPlasticKg p))"
  shows "handleSubmitPlasticMitigation e w ctx p =
           (p\<lparr>sp_mitigationError := ''Please enter a valid amount for mitigated plastic (kg).''\<rparr>, w)"
  using assms by (auto simp add: handleSubmitPlasticMitigation_def)

theorem nonpositive_kg_rejected_witness:
  "ac_user alice_session = Some \<lparr>u_id = ''alice'', u_email = ''alice@example.com'', u_full_name = None\<rparr>
   \<and> ac_profile alice_session = Some alice
   \<and> le_zero (parseFloat (sp_mitigatedPlasticKg (mitigation_form ''-3'')))
   \<and> handleSubmitPlasticMitigation online portal alice_session (mitigation_form ''-3'') =
       ((mitigation_form ''-3'')\<lparr>sp_mitigationError := ''Please enter a valid amount for mitigated plastic (kg).''\<rparr>,
        portal)
   \<and> requests portal = []"
proof -
  have u: "ac_user alice_session = Some \<lparr>u_id = ''alice'', u_email = ''alice@example.com'', u_full_name = None\<rparr>"
    by (simp add: alice_session_def)
  have pr: "ac_profile alice_session = Some alice"
    by (simp add: alice_session_def)
  have kg: "le_zero (parseFloat (sp_mitigatedPlasticKg (mitigation_form ''-3'')))"
    by (simp add: mitigation_form_def js_defs)
  have "requests portal = []"
    by (simp add: portal_def)
  then show ?thesis
    using u pr kg nonpositive_kg_rejected[OF u pr disjI2[OF kg], of online portal] by simp
qed

text \<open>
  C5. The claim: when an upload fails after earlier uploads of the same submission, the
  images already uploaded are deleted, no entry and no image row is created, and the
  submission fails with the upload error. The program at two photos, the second upload
  failing: the error shown is that of the upload and no row is created, but no \<^verbatim>\<open>remove\<close>
  is sent and the first photo stays in the bucket. Only the failure of the insert of the
  entry removes the uploaded files.
\<close>

theorem failed_upload_leaves_images:
  "mitigation_images portal = []
   \<and> sp_mitigationError (fst second_upload_fails) = ''Failed to upload b.png: '' @ message failed_to_fetch
   \<and> requests (snd second_upload_fails) =
       [Upload ''alice/1000_a.png'' \<lparr>f_name = ''a.png'', f_bytes = ''A''\<rparr>,
        Upload ''alice/1001_b.png'' \<lparr>f_name = ''b.png'', f_bytes = ''B''\<rparr>]
   \<and> mitigation_images (snd second_upload_fails) =
       [(''alice/1000_a.png'', \<lparr>f_name = ''a.png'', f_bytes = ''A''\<rparr>)]
   \<and> plastic_mitigation_entries (snd second_upload_fails) = []
   \<and> mitigation_activity_images (snd second_upload_fails) = []"
  by (simp add: scenario_defs handler_defs backend_defs js_defs Let_def)

text \<open>
  C10. There is a non-empty text for the amount that \<^verbatim>\<open>parseFloat\<close> reads as \<^verbatim>\<open>NaN\<close> and
  that the guard \<^verbatim>\<open>parseFloat(kg) <= 0\<close> lets through: with \<^verbatim>\<open>abc\<close> the photos are uploaded
  and the insert of an entry whose amount is \<^verbatim>\<open>NaN\<close> is sent. The table refuses it, and the
  uploaded photos are removed.
\<close>

theorem nan_kg_passes_guard:
  "\<exists>kg. kg \<noteq> [] \<and> parseFloat kg = NaN \<and> \<not> le_zero (parseFloat kg)
     \<and> requests (snd (handleSubmitPlasticMitigation online portal alice_session (mitigation_form kg))) =
         [Upload ''alice/1000_a.png'' \<lparr>f_name = ''a.png'', f_bytes = ''A''\<rparr>,
          Upload ''alice/1001_b.png'' \<lparr>f_name = ''b.png'', f_bytes = ''B''\<rparr>,
          InsertMitigationEntry ''alice'' NaN,
          Remove [''alice/1000_a.png'', ''alice/1001_b.png'']]
     \<and> sp_mitigationError (fst (handleSubmitPlasticMitigation online portal alice_session (mitigation_form kg))) =
         message not_null_violation
     \<and> plastic_mitigation_entries (snd (handleSubmitPlasticMitigation online portal alice_session (mitigation_form kg))) = []"
proof -
  have nan: "parseFloat ''abc'' = NaN"
    by (simp add: js_defs Let_def)
  have "requests (snd (handleSubmitPlasticMitigation online portal alice_session (mitigation_form ''abc''))) =
         [Upload ''alice/1000_a.png'' \<lparr>f_name = ''a.png'', f_bytes = ''A''\<rparr>,
          Upload ''alice/1001_b.png'' \<lparr>f_name = ''b.png'', f_bytes = ''B''\<rparr>,
          InsertMitigationEntry ''alice'' NaN,
          Remove [''alice/1000_a.png'', ''alice/1001_b.png'']]
     \<and> sp_mitigationError (fst (handleSubmitPlasticMitigation online portal alice_session (mitigation_form ''abc''))) =
         message not_null_violation
     \<and> plastic_mitigation_entries (snd (handleSubmitPlasticMitigation online portal alice_session (mitigation_form ''abc''))) = []"
    by code_simp
  then show ?thesis
    using nan by (intro exI[of _ "''abc''"]) simp
qed

section \<open>Deleting a reward definition\<close>

text \<open>
  C9. Deleting a reward definition that a ledger row references fails: the page shows an
  error and keeps the reward selected, and neither the definition nor any ledger row is
  removed. When the request reaches the database the error is the refusal of the foreign
  key (\<^verbatim>\<open>ON DELETE RESTRICT\<close>). Deleting a definition that no ledger row references, with
  the request answered, succeeds: the definition is gone and the ledger is as before.
\<close>

theorem referenced_reward_not_deleted:
  assumes "dp_rewardToDelete p = Some r"
  shows "(r_id r \<in> set (map r_id (rewards w)) \<and> r_id r \<in> set (map cr_reward_id (client_rewards w))
          \<longrightarrow> dp_error (fst (confirmDeleteReward e w p)) \<noteq> None
            \<and> dp_rewardToDelete (fst (confirmDeleteReward e w p)) = Some r
            \<and> rewards (snd (confirmDeleteReward e w p)) = rewards w
            \<and> client_rewards (snd (confirmDeleteReward e w p)) = client_rewards w
            \<and> (fault e (length (requests w)) = None
                 \<longrightarrow> fst (delete_reward e w (r_id r)) = Some foreign_key_violation
                   \<and> dp_error (fst (confirmDeleteReward e w p)) = Some (message foreign_key_violation)))
       \<and> (r_id r \<notin> set (map cr_reward_id (client_rewards w)) \<and> fault e (length (requests w)) = None
          \<longrightarrow> dp_error (fst (confirmDeleteReward e w p)) = dp_error p
            \<and> dp_rewardToDelete (fst (confirmDeleteReward e w p)) = None
            \<and> rewards (snd (confirmDeleteReward e w p)) = filter (\<lambda>x. r_id x \<noteq> r_id r) (rewards w)
            \<and> r_id r \<notin> set (map r_id (rewards (snd (confirmDeleteReward e w p))))
            \<and> client_rewards (snd (confirmDeleteReward e w p)) = client_rewards w)"
  using assms
  by (auto simp add: confirmDeleteReward_def delete_reward_def Let_def receive_def or_else_def
        foreign_key_violation_def split: option.splits)

text \<open>After Alice was awarded Gold: Gold cannot be deleted, Silver can.\<close>

theorem referenced_reward_not_deleted_witness:
  "dp_rewardToDelete (delete_form gold) = Some gold
   \<and> r_id gold \<in> set (map r_id (rewards (snd one_award)))
   \<and> r_id gold \<in> set (map cr_reward_id (client_rewards (snd one_award)))
   \<and> fault online (length (requests (snd one_award))) = None
   \<and> dp_error (fst (confirmDeleteReward online (snd one_award) (delete_form gold))) =
       Some (message foreign_key_violation)
   \<and> rewards (snd (confirmDeleteReward online (snd one_award) (delete_form gold))) = [gold, silver]
   \<and> client_rewards (snd (confirmDeleteReward online (snd one_award) (delete_form gold))) =
       client_rewards (snd one_award)
   \<and> dp_rewardToDelete (delete_form silver) = Some silver
   \<and> r_id silver \<notin> set (map cr_reward_id (client_rewards (snd one_award)))
   \<and> dp_error (fst (confirmDeleteReward online (snd one_award) (delete_form silver))) = None
   \<and> rewards (snd (confirmDeleteReward online (snd one_award) (delete_form silver))) = [gold]
   \<and> client_rewards (snd (confirmDeleteReward online (snd one_award) (delete_form silver))) =
       client_rewards (snd one_award)"
proof -
  have g: "dp_rewardToDelete (delete_form gold) = Some gold"
    by (simp add: delete_form_def handleDeleteRequest_def)
  have s: "dp_rewardToDelete (delete_form silver) = Some silver"
    by (simp add: delete_form_def handleDeleteRequest_def)
  have rs: "rewards (snd one_award) = [gold, silver]"
    by (simp add: scenario_defs handler_defs backend_defs js_defs)
  have crs: "map cr_reward_id (client_rewards (snd one_award)) = [''gold'']"
    by (simp add: scenario_defs handler_defs backend_defs js_defs)
  have f: "fault online (length (requests (snd one_award))) = None"
    by (simp add: online_def)
  have e: "dp_error (delete_form silver) = None"
    by (simp add: delete_form_def handleDeleteRequest_def)
  have ids: "r_id gold = ''gold''" "r_id silver = ''silver''"
    by (simp_all add: gold_def silver_def)
  show ?thesis
    using referenced_reward_not_deleted[OF g, of "snd one_award" online]
      referenced_reward_not_deleted[OF s, of "snd one_award" online] g s rs crs f e ids
    by simp
qed

section \<open>Updating the profile\<close>







end
